theory Spec2Isabelle
  imports Main
begin

section \<open>Python values\<close>

text \<open>
  The hooks of \<^verbatim>\<open>galaxy_ng/app/dynaconf_hooks.py\<close> read settings of any Python type and
  build dictionaries of such values. A value is \<open>None\<close>, a \<open>bool\<close>, an \<open>int\<close>, a
  \<open>str\<close>, a list (tuples are read as lists), a \<open>dict\<close> in insertion order, or an
  object of a library class (\<open>LDAPSearch\<close>, \<open>Dynaconf\<close>, \<open>Hook\<close>), kept as the
  class name and the arguments it was built from. Floats are not part of the model.
\<close>

datatype pyval =
    PNone
  | PBool bool
  | PInt int
  | PStr string
  | PList "pyval list"
  | PDict "(pyval \<times> pyval) list"
  | PObj string "pyval list"

text \<open>
  The exceptions the hooks can raise. \<open>ValidationError name operation\<close> is dynaconf's
  error for the failed operation of the rule bound to \<open>name\<close>; \<open>External\<close> is an
  exception of another class raised inside a collaborator (the cache, the database, the
  external settings subsystem, a dynaconf call). \<open>IllTyped key\<close> stands for a value of a
  type the hook does not expect under \<open>key\<close> (a number where a list is read, and so
  on): Python then fails or goes on depending on duck typing, which is outside the model.
\<close>

datatype error =
    AttributeError string
  | KeyError string
  | TypeError string
  | ValueError string
  | ImportError
  | ValidationError string string
  | DynaconfFormatError
  | DynaconfParseError
  | External string
  | IllTyped string

text \<open>
  Python's \<open>==\<close>: a \<open>bool\<close> is the integer 0 or 1, lists are compared element by
  element, dictionaries as sets of items; everything else is equal only to itself.
\<close>

function (sequential) py_eq :: "pyval \<Rightarrow> pyval \<Rightarrow> bool"
  and py_eq_list :: "pyval list \<Rightarrow> pyval list \<Rightarrow> bool"
  and py_item_in :: "pyval \<Rightarrow> pyval \<Rightarrow> (pyval \<times> pyval) list \<Rightarrow> bool"
  and py_items_in :: "(pyval \<times> pyval) list \<Rightarrow> (pyval \<times> pyval) list \<Rightarrow> bool"
where
  "py_eq (PBool a) (PInt b) = ((if a then 1 else 0) = b)"
| "py_eq (PInt a) (PBool b) = (a = (if b then 1 else 0))"
| "py_eq (PList xs) (PList ys) = py_eq_list xs ys"
| "py_eq (PDict a) (PDict b) = (length a = length b \<and> py_items_in a b)"
| "py_eq a b = (a = b)"
| "py_eq_list [] [] = True"
| "py_eq_list (x # xs) (y # ys) = (py_eq x y \<and> py_eq_list xs ys)"
| "py_eq_list _ _ = False"
| "py_item_in k v [] = False"
| "py_item_in k v ((k', v') # b) = ((py_eq k k' \<and> py_eq v v') \<or> py_item_in k v b)"
| "py_items_in [] b = True"
| "py_items_in ((k, v) # a) b = (py_item_in k v b \<and> py_items_in a b)"
  by pat_completeness auto
termination
  apply (relation "inv_image (less_than <*lex*> less_than)
     (\<lambda>x. case x of
        Inl (Inl (a, b)) \<Rightarrow> (2 * size a, 0)
      | Inl (Inr (xs, ys)) \<Rightarrow> (2 * size_list size xs + 1, 0)
      | Inr (Inl (k, v, b)) \<Rightarrow> (2 * (size k + size v) + 1, length b)
      | Inr (Inr (a, b)) \<Rightarrow> (2 * size_list (size_prod size size) a + 1, 0))")
  apply auto
  done

text \<open>Truthiness, as \<open>if x:\<close> and \<open>all([...])\<close> test it.\<close>

fun truthy :: "pyval \<Rightarrow> bool" where
  "truthy PNone = False"
| "truthy (PBool b) = b"
| "truthy (PInt i) = (i \<noteq> 0)"
| "truthy (PStr s) = (s \<noteq> [])"
| "truthy (PList xs) = (xs \<noteq> [])"
| "truthy (PDict kvs) = (kvs \<noteq> [])"
| "truthy (PObj c args) = True"

text \<open>\<open>x in xs\<close>, \<open>xs.count(x)\<close> and \<open>xs.remove(x)\<close> on a list.\<close>

definition py_in :: "pyval \<Rightarrow> pyval list \<Rightarrow> bool" where
  "py_in x xs = list_ex (\<lambda>e. py_eq e x) xs"

definition py_count :: "pyval list \<Rightarrow> pyval \<Rightarrow> nat" where
  "py_count xs x = length (filter (\<lambda>e. py_eq e x) xs)"

fun py_remove :: "pyval list \<Rightarrow> pyval \<Rightarrow> error + pyval list" where
  "py_remove [] x = Inl (ValueError ''list.remove(x): x not in list'')"
| "py_remove (e # es) x =
     (if py_eq e x then Inr es
      else case py_remove es x of Inl err \<Rightarrow> Inl err | Inr es' \<Rightarrow> Inr (e # es'))"

text \<open>\<open>d.get(k)\<close> on a dictionary value: the first item whose key equals \<open>k\<close>.\<close>

fun py_dict_get :: "(pyval \<times> pyval) list \<Rightarrow> pyval \<Rightarrow> pyval option" where
  "py_dict_get [] k = None"
| "py_dict_get ((k', v) # kvs) k = (if py_eq k' k then Some v else py_dict_get kvs k)"

text \<open>\<open>d[k] = v\<close> on a dictionary value: the item of key \<open>k\<close> is replaced where it
  stands, a new key is added at the end.\<close>

fun py_dict_set :: "(pyval \<times> pyval) list \<Rightarrow> pyval \<Rightarrow> pyval \<Rightarrow> (pyval \<times> pyval) list" where
  "py_dict_set [] k v = [(k, v)]"
| "py_dict_set ((k', v') # kvs) k v =
     (if py_eq k' k then (k', v) # kvs else (k', v') # py_dict_set kvs k v)"

text \<open>\<open>for item in x\<close>: the items a value yields when it is iterated.\<close>

fun py_iter :: "pyval \<Rightarrow> error + pyval list" where
  "py_iter (PList xs) = Inr xs"
| "py_iter (PStr s) = Inr (map (\<lambda>c. PStr [c]) s)"
| "py_iter (PDict kvs) = Inr (map fst kvs)"
| "py_iter (PObj c args) = Inl (IllTyped c)"
| "py_iter v = Inl (TypeError ''object is not iterable'')"

definition bind_result :: "error + 'a \<Rightarrow> ('a \<Rightarrow> error + 'b) \<Rightarrow> error + 'b" where
  "bind_result r f = (case r of Inl err \<Rightarrow> Inl err | Inr x \<Rightarrow> f x)"

section \<open>Strings\<close>

definition digit_char :: "nat \<Rightarrow> char" where
  "digit_char d = ''0123456789'' ! d"

fun string_of_nat :: "nat \<Rightarrow> string" where
  "string_of_nat n =
     (if n < 10 then [digit_char n] else string_of_nat (n div 10) @ [digit_char (n mod 10)])"

declare string_of_nat.simps [simp del]

definition string_of_int :: "int \<Rightarrow> string" where
  "string_of_int i =
     (if i < 0 then CHR ''-'' # string_of_nat (nat (- i)) else string_of_nat (nat i))"

text \<open>\<open>s.upper()\<close>, on the ASCII letters.\<close>

definition upper_char :: "char \<Rightarrow> char" where
  "upper_char c =
     (case map_of (zip ''abcdefghijklmnopqrstuvwxyz'' ''ABCDEFGHIJKLMNOPQRSTUVWXYZ'') c of
        None \<Rightarrow> c
      | Some u \<Rightarrow> u)"

definition py_upper :: "string \<Rightarrow> string" where
  "py_upper s = map upper_char s"

text \<open>\<open>s.strip(c)\<close>, \<open>s.endswith(suffix)\<close> and \<open>s.split("__")[0]\<close>.\<close>

definition py_strip :: "char \<Rightarrow> string \<Rightarrow> string" where
  "py_strip c s = rev (dropWhile (\<lambda>a. a = c) (rev (dropWhile (\<lambda>a. a = c) s)))"

definition py_endswith :: "string \<Rightarrow> string \<Rightarrow> bool" where
  "py_endswith s suffix =
     (length suffix \<le> length s \<and> drop (length s - length suffix) s = suffix)"

fun split_head :: "string \<Rightarrow> string" where
  "split_head (a # b # rest) =
     (if a = CHR ''_'' \<and> b = CHR ''_'' then [] else a # split_head (b # rest))"
| "split_head s = s"

section \<open>Settings and partial updates\<close>

text \<open>
  A settings object is modelled by what its \<open>get\<close> observes: \<open>s k = None\<close> when the key
  is not set, \<open>s k = Some v\<close> when \<open>settings.get(k)\<close> finds \<open>v\<close> (dynaconf's own
  resolution of case and of nested \<open>__\<close> keys is inside that observation). The model
  reads the settings object as a value. Where a hook changes in place a list or a
  dictionary it got from \<open>settings.get\<close> (\<open>append\<close>, \<open>extend\<close>, \<open>insert\<close>, an item
  assignment), the change is made to the value the hook goes on with and returns; whether
  dynaconf hands out the stored object itself, so that a later \<open>get\<close> of that key finds
  it changed, is not part of the model. The statements below are about what a hook
  returns for the contents that \<open>settings\<close> and \<open>data\<close> have when it is called, and,
  across hooks, about keys that no hook changes in place. The dictionary a hook returns,
  and the \<open>data\<close> dictionary that \<open>post\<close> accumulates, are maps from keys to values;
  \<open>data.update(p)\<close> is \<open>data ++ p\<close>.
\<close>

type_synonym settings = "string \<rightharpoonup> pyval"
type_synonym data = "string \<rightharpoonup> pyval"

definition settings_get :: "settings \<Rightarrow> string \<Rightarrow> pyval \<Rightarrow> pyval" where
  "settings_get s k dflt = (case s k of None \<Rightarrow> dflt | Some v \<Rightarrow> v)"

text \<open>\<open>settings.KEY\<close>: the attribute, or \<open>AttributeError\<close>.\<close>

definition settings_attr :: "settings \<Rightarrow> string \<Rightarrow> error + pyval" where
  "settings_attr s k = (case s k of None \<Rightarrow> Inl (AttributeError k) | Some v \<Rightarrow> Inr v)"

definition data_get :: "data \<Rightarrow> string \<Rightarrow> pyval \<Rightarrow> pyval" where
  "data_get d k dflt = (case d k of None \<Rightarrow> dflt | Some v \<Rightarrow> v)"

text \<open>\<open>data.update(hook(...))\<close>, the hook's exception passing through.\<close>

definition update_with :: "data \<Rightarrow> error + data \<Rightarrow> error + data" where
  "update_with data r = bind_result r (\<lambda>p. Inr (data ++ p))"

definition result_key :: "error + data \<Rightarrow> string \<Rightarrow> pyval option" where
  "result_key r k = (case r of Inl e \<Rightarrow> None | Inr d \<Rightarrow> d k)"

text \<open>
  The dynamic settings fetched from the cache or the database: a dictionary with string
  keys, empty for \<open>{}\<close> and for \<open>None\<close>.
\<close>

type_synonym dynamic_data = "(string \<times> pyval) list"

text \<open>A log record: the level and the format string of the message.\<close>

type_synonym log_record = "string \<times> string"

section \<open>External collaborators\<close>

text \<open>
  What the hooks call outside this file is a parameter of the model: the standard
  library (\<open>os.getenv\<close>, \<open>os.path.join\<close>, \<open>str\<close> of a container or an object, \<open>int\<close> of
  a string, \<open>json.loads\<close>), python-ldap's constants, the class an entry point loads and
  instantiates, dynaconf (\<open>box_get\<close>, the \<open>get\<close> of the mapping object it hands out
  for a dictionary setting; \<open>update\<close>, \<open>set\<close> and \<open>as_dict\<close> of a settings object; the
  validators already registered on the settings object; whether its hooking modules can
  be imported), django-ansible-base (\<open>factory\<close>, \<open>load_dab_settings\<close>,
  \<open>load_standard_settings_files\<close>, \<open>validate\<close>, \<open>toggle_feature_flags\<close>) and
  \<open>DYNAMIC_SETTINGS_SCHEMA\<close> of \<open>galaxy_ng.app.dynamic_settings\<close> (its keys).
  \<open>temp_update t d ident\<close> is \<^verbatim>\<open>temp_settings.update(d, loader_identifier=..., tomlfy=True)\<close>:
  the settings object as the call leaves it, and the exception it raised, if any.
\<close>

record externals =
  getenv :: "string \<Rightarrow> string option"
  os_path_join :: "pyval \<Rightarrow> string \<Rightarrow> error + pyval"
  str_of :: "pyval \<Rightarrow> string"
  int_of_str :: "string \<Rightarrow> int option"
  json_loads :: "string \<Rightarrow> pyval option"
  ldap_OPT_X_TLS_REQUIRE_CERT :: pyval
  ldap_OPT_X_TLS_NEVER :: pyval
  ldap_OPT_REFERRALS :: pyval
  ldap_SCOPE_BASE :: pyval
  ldap_SCOPE_ONELEVEL :: pyval
  ldap_SCOPE_SUBTREE :: pyval
  load_group_type :: "pyval \<Rightarrow> pyval \<Rightarrow> error + pyval"
  box_get :: "pyval \<Rightarrow> pyval \<Rightarrow> error + pyval"
  as_dict :: "settings \<Rightarrow> data"
  dynaconf_update :: "settings \<Rightarrow> data \<Rightarrow> error + settings"
  dynaconf_set :: "settings \<Rightarrow> string \<Rightarrow> pyval \<Rightarrow> error + settings"
  temp_update :: "settings \<Rightarrow> dynamic_data \<Rightarrow> string \<Rightarrow> settings \<times> error option"
  prior_validators :: "settings \<Rightarrow> error option"
  hooking_importable :: bool
  cli_dynaconf :: "settings \<Rightarrow> data \<Rightarrow> pyval \<Rightarrow> error + pyval"
  dab_factory :: settings
  load_dab_settings :: "settings \<Rightarrow> error + settings"
  load_standard_settings_files :: "settings \<Rightarrow> error + settings"
  dab_validate :: "settings \<Rightarrow> error option"
  toggle_feature_flags :: "settings \<Rightarrow> error + data"
  DYNAMIC_SETTINGS_SCHEMA :: "string list"

text \<open>\<open>str(v)\<close>, as an f-string and \<open>str.format\<close> insert a value.\<close>

fun py_str :: "externals \<Rightarrow> pyval \<Rightarrow> string" where
  "py_str x PNone = ''None''"
| "py_str x (PBool b) = (if b then ''True'' else ''False'')"
| "py_str x (PInt i) = string_of_int i"
| "py_str x (PStr s) = s"
| "py_str x v = str_of x v"

text \<open>\<open>int(v)\<close>.\<close>

fun py_int :: "externals \<Rightarrow> pyval \<Rightarrow> error + int" where
  "py_int x (PInt i) = Inr i"
| "py_int x (PBool b) = Inr (if b then 1 else 0)"
| "py_int x (PStr s) =
     (case int_of_str x s of
        None \<Rightarrow> Inl (ValueError ''invalid literal for int()'')
      | Some i \<Rightarrow> Inr i)"
| "py_int x (PObj c args) = Inl (IllTyped c)"
| "py_int x v = Inl (TypeError ''int() argument must be a string or a number'')"

definition DAB_SERVICE_BACKED_REDIRECT :: string where
  "DAB_SERVICE_BACKED_REDIRECT =
     ''ansible_base.resource_registry.utils.service_backed_sso_pipeline.redirect_to_resource_server''"

section \<open>The literal values of the hooks\<close>

definition keycloak_SOCIAL_AUTH_PIPELINE :: pyval where
  "keycloak_SOCIAL_AUTH_PIPELINE =
     PList
      [PStr ''social_core.pipeline.social_auth.social_details'',
       PStr ''social_core.pipeline.social_auth.social_uid'',
       PStr ''social_core.pipeline.social_auth.social_user'',
       PStr ''social_core.pipeline.user.get_username'',
       PStr ''social_core.pipeline.social_auth.associate_by_email'',
       PStr ''social_core.pipeline.user.create_user'',
       PStr ''social_core.pipeline.social_auth.associate_user'',
       PStr ''social_core.pipeline.social_auth.load_extra_data'',
       PStr ''social_core.pipeline.user.user_details'',
       PStr ''galaxy_ng.app.pipelines.user_role'',
       PStr ''galaxy_ng.app.pipelines.user_group'',
       PStr DAB_SERVICE_BACKED_REDIRECT]"

definition socialauth_SOCIAL_AUTH_PIPELINE :: pyval where
  "socialauth_SOCIAL_AUTH_PIPELINE =
     PList
      [PStr ''social_core.pipeline.social_auth.social_details'',
       PStr ''social_core.pipeline.social_auth.social_uid'',
       PStr ''social_core.pipeline.social_auth.auth_allowed'',
       PStr ''social_core.pipeline.social_auth.social_user'',
       PStr ''galaxy_ng.social.pipeline.user.get_username'',
       PStr ''galaxy_ng.social.pipeline.user.create_user'',
       PStr ''social_core.pipeline.social_auth.associate_user'',
       PStr ''social_core.pipeline.social_auth.load_extra_data'',
       PStr ''social_core.pipeline.user.user_details'',
       PStr DAB_SERVICE_BACKED_REDIRECT]"

definition socialauth_AUTHENTICATION_CLASSES :: pyval where
  "socialauth_AUTHENTICATION_CLASSES =
     PList
      [PStr ''galaxy_ng.app.auth.session.SessionAuthentication'',
       PStr ''rest_framework.authentication.TokenAuthentication'',
       PStr ''rest_framework.authentication.BasicAuthentication'']"

definition logging_LOGGING :: pyval where
  "logging_LOGGING =
     PDict
      [(PStr ''version'', PInt 1),
       (PStr ''disable_existing_loggers'', PBool False),
       (PStr ''formatters'', PDict
         [(PStr ''automated_logging'', PDict [(PStr ''format'', PStr ''%(asctime)s: %(levelname)s: %(message)s'')])]),
       (PStr ''handlers'', PDict
         [(PStr ''automated_logging'', PDict
            [(PStr ''level'', PStr ''INFO''),
             (PStr ''class'', PStr ''logging.handlers.WatchedFileHandler''),
             (PStr ''filename'', PStr ''/var/log/galaxy_api_access.log''),
             (PStr ''formatter'', PStr ''automated_logging'')])]),
       (PStr ''loggers'', PDict
         [(PStr ''automated_logging'', PDict
            [(PStr ''handlers'', PList [PStr ''automated_logging'']),
             (PStr ''level'', PStr ''INFO''),
             (PStr ''propagate'', PBool False)])]),
       (PStr ''dynaconf_merge'', PBool True)]"

definition logging_AUTOMATED_LOGGING :: pyval where
  "logging_AUTOMATED_LOGGING =
     PDict
      [(PStr ''globals'', PDict
         [(PStr ''exclude'', PDict
            [(PStr ''applications'', PList
               [PStr ''plain:contenttypes'',
                PStr ''plain:admin'',
                PStr ''plain:basehttp'',
                PStr ''glob:session*'',
                PStr ''plain:migrations''])])]),
       (PStr ''model'', PDict
         [(PStr ''detailed_message'', PBool True),
          (PStr ''exclude'', PDict
            [(PStr ''applications'', PList []),
             (PStr ''fields'', PList []),
             (PStr ''models'', PList []),
             (PStr ''unknown'', PBool False)]),
          (PStr ''loglevel'', PInt 20),
          (PStr ''mask'', PList []),
          (PStr ''max_age'', PNone),
          (PStr ''performance'', PBool False),
          (PStr ''snapshot'', PBool False),
          (PStr ''user_mirror'', PBool False)]),
       (PStr ''modules'', PList [PStr ''request'', PStr ''unspecified'', PStr ''model'']),
       (PStr ''request'', PDict
         [(PStr ''data'', PDict
            [(PStr ''content_types'', PList [PStr ''application/json'']),
             (PStr ''enabled'', PList []),
             (PStr ''ignore'', PList []),
             (PStr ''mask'', PList
               [PStr ''ca_cert'',
                PStr ''client_cert'',
                PStr ''client_key'',
                PStr ''email'',
                PStr ''password'',
                PStr ''proxy_url'',
                PStr ''proxy_username'',
                PStr ''proxy_password'',
                PStr ''token'',
                PStr ''username'']),
             (PStr ''query'', PBool True)]),
          (PStr ''exclude'', PDict
            [(PStr ''applications'', PList []),
             (PStr ''methods'', PList []),
             (PStr ''status'', PList []),
             (PStr ''unknown'', PBool False)]),
          (PStr ''ip'', PBool True),
          (PStr ''loglevel'', PInt 20),
          (PStr ''max_age'', PNone)]),
       (PStr ''unspecified'', PDict
         [(PStr ''exclude'', PDict
            [(PStr ''applications'', PList []),
             (PStr ''files'', PList []),
             (PStr ''unknown'', PBool False)]),
          (PStr ''loglevel'', PInt 20),
          (PStr ''max_age'', PNone)])]"

definition ldap_LOGGING :: pyval where
  "ldap_LOGGING =
     PDict
      [(PStr ''dynaconf_merge'', PBool True),
       (PStr ''version'', PInt 1),
       (PStr ''disable_existing_loggers'', PBool False),
       (PStr ''handlers'', PDict
         [(PStr ''console'', PDict [(PStr ''class'', PStr ''logging.StreamHandler'')])]),
       (PStr ''loggers'', PDict
         [(PStr ''django_auth_ldap'', PDict
            [(PStr ''level'', PStr ''DEBUG''),
             (PStr ''handlers'', PList [PStr ''console''])])])]"

section \<open>The hooks\<close>

subsection \<open>configure_keycloak\<close>

definition keycloak_url :: "externals \<Rightarrow> pyval \<Rightarrow> pyval \<Rightarrow> pyval \<Rightarrow> string" where
  "keycloak_url x protocol host port =
     py_str x protocol @ ''://'' @ py_str x host @ '':'' @ py_str x port"

text \<open>\<^verbatim>\<open>"{keycloak}/auth/realms/{realm}/protocol/openid-connect/auth/".format(...)\<close>.\<close>

definition auth_url_str :: "externals \<Rightarrow> string \<Rightarrow> pyval \<Rightarrow> string" where
  "auth_url_str x keycloak realm =
     keycloak @ ''/auth/realms/'' @ py_str x realm @ ''/protocol/openid-connect/auth/''"

definition keycloak_TEMPLATES :: "pyval \<Rightarrow> pyval" where
  "keycloak_TEMPLATES templates_dir =
     PList
      [PDict
        [(PStr ''BACKEND'', PStr ''django.template.backends.django.DjangoTemplates''),
         (PStr ''DIRS'', PList [templates_dir]),
         (PStr ''APP_DIRS'', PBool True),
         (PStr ''OPTIONS'', PDict
           [(PStr ''context_processors'', PList
              [PStr ''django.template.context_processors.debug'',
               PStr ''django.template.context_processors.request'',
               PStr ''django.contrib.auth.context_processors.auth'',
               PStr ''django.contrib.messages.context_processors.messages'',
               PStr ''social_django.context_processors.backends'',
               PStr ''social_django.context_processors.login_redirect''])])]]"

definition configure_keycloak :: "externals \<Rightarrow> settings \<Rightarrow> error + data" where
  "configure_keycloak x settings =
     (let SOCIAL_AUTH_KEYCLOAK_KEY = settings_get settings ''SOCIAL_AUTH_KEYCLOAK_KEY'' PNone;
          SOCIAL_AUTH_KEYCLOAK_SECRET = settings_get settings ''SOCIAL_AUTH_KEYCLOAK_SECRET'' PNone;
          SOCIAL_AUTH_KEYCLOAK_PUBLIC_KEY =
            settings_get settings ''SOCIAL_AUTH_KEYCLOAK_PUBLIC_KEY'' PNone;
          KEYCLOAK_PROTOCOL = settings_get settings ''KEYCLOAK_PROTOCOL'' PNone;
          KEYCLOAK_HOST = settings_get settings ''KEYCLOAK_HOST'' PNone;
          KEYCLOAK_PORT = settings_get settings ''KEYCLOAK_PORT'' PNone;
          KEYCLOAK_REALM = settings_get settings ''KEYCLOAK_REALM'' PNone
      in
        if list_all truthy
             [SOCIAL_AUTH_KEYCLOAK_KEY, SOCIAL_AUTH_KEYCLOAK_SECRET,
              SOCIAL_AUTH_KEYCLOAK_PUBLIC_KEY, KEYCLOAK_HOST, KEYCLOAK_PORT, KEYCLOAK_REALM]
        then
          (let KEYCLOAK_ROLE_TOKEN_CLAIM =
                 settings_get settings ''KEYCLOAK_GROUP_TOKEN_CLAIM'' (PStr ''client_roles'');
               KEYCLOAK_HOST_LOOPBACK = settings_get settings ''KEYCLOAK_HOST_LOOPBACK'' PNone;
               KEYCLOAK_URL = keycloak_url x KEYCLOAK_PROTOCOL KEYCLOAK_HOST KEYCLOAK_PORT;
               data =
                 [''GALAXY_AUTH_KEYCLOAK_ENABLED'' \<mapsto> PBool True,
                  ''KEYCLOAK_ADMIN_ROLE'' \<mapsto>
                    settings_get settings ''KEYCLOAK_ADMIN_ROLE'' (PStr ''hubadmin''),
                  ''KEYCLOAK_GROUP_TOKEN_CLAIM'' \<mapsto>
                    settings_get settings ''KEYCLOAK_GROUP_TOKEN_CLAIM'' (PStr ''group''),
                  ''KEYCLOAK_ROLE_TOKEN_CLAIM'' \<mapsto> KEYCLOAK_ROLE_TOKEN_CLAIM,
                  ''KEYCLOAK_HOST_LOOPBACK'' \<mapsto> KEYCLOAK_HOST_LOOPBACK,
                  ''KEYCLOAK_URL'' \<mapsto> PStr KEYCLOAK_URL,
                  ''SOCIAL_AUTH_KEYCLOAK_AUTHORIZATION_URL'' \<mapsto>
                    PStr (if truthy KEYCLOAK_HOST_LOOPBACK
                          then auth_url_str x
                                 (keycloak_url x KEYCLOAK_PROTOCOL KEYCLOAK_HOST_LOOPBACK
                                    KEYCLOAK_PORT)
                                 KEYCLOAK_REALM
                          else auth_url_str x KEYCLOAK_URL KEYCLOAK_REALM),
                  ''SOCIAL_AUTH_KEYCLOAK_ACCESS_TOKEN_URL'' \<mapsto>
                    PStr (KEYCLOAK_URL @ ''/auth/realms/'' @ py_str x KEYCLOAK_REALM @
                          ''/protocol/openid-connect/token/''),
                  ''SOCIAL_AUTH_LOGIN_REDIRECT_URL'' \<mapsto>
                    settings_get settings ''SOCIAL_AUTH_LOGIN_REDIRECT_URL'' (PStr ''/ui/''),
                  ''SOCIAL_AUTH_JSONFIELD_ENABLED'' \<mapsto> PBool True,
                  ''SOCIAL_AUTH_URL_NAMESPACE'' \<mapsto> PStr ''social'',
                  ''SOCIAL_AUTH_KEYCLOAK_EXTRA_DATA'' \<mapsto>
                    PList [PList [PStr ''refresh_token'', PStr ''refresh_token''],
                           PList [KEYCLOAK_ROLE_TOKEN_CLAIM, KEYCLOAK_ROLE_TOKEN_CLAIM]],
                  ''SOCIAL_AUTH_PIPELINE'' \<mapsto> keycloak_SOCIAL_AUTH_PIPELINE,
                  ''GALAXY_FEATURE_FLAGS__external_authentication'' \<mapsto> PBool True,
                  ''INSTALLED_APPS'' \<mapsto>
                    PList [PStr ''automated_logging'', PStr ''social_django'',
                           PStr ''dynaconf_merge_unique''],
                  ''AUTHENTICATION_BACKENDS'' \<mapsto>
                    PList [PStr ''social_core.backends.keycloak.KeycloakOAuth2'',
                           PStr ''dynaconf_merge''],
                  ''GALAXY_TOKEN_EXPIRATION'' \<mapsto>
                    settings_get settings ''GALAXY_TOKEN_EXPIRATION'' (PInt 1440)]
           in bind_result (settings_attr settings ''BASE_DIR'')
                (\<lambda>base_dir.
                   bind_result (os_path_join x base_dir ''templates'')
                     (\<lambda>templates_dir.
                        Inr (data(''TEMPLATES'' \<mapsto> keycloak_TEMPLATES templates_dir)))))
        else Inr Map.empty)"

subsection \<open>configure_socialauth\<close>

text \<open>\<^verbatim>\<open>backends.append(a); backends.append(b)\<close> on the value read from the settings.\<close>

definition append_two :: "string \<Rightarrow> pyval \<Rightarrow> string \<Rightarrow> string \<Rightarrow> error + pyval" where
  "append_two key v a b =
     (case v of
        PList xs \<Rightarrow> Inr (PList (xs @ [PStr a, PStr b]))
      | PObj c args \<Rightarrow> Inl (IllTyped key)
      | _ \<Rightarrow> Inl (AttributeError ''append''))"

definition configure_socialauth :: "settings \<Rightarrow> error + data" where
  "configure_socialauth settings =
     (let SOCIAL_AUTH_GITHUB_KEY = settings_get settings ''SOCIAL_AUTH_GITHUB_KEY'' PNone;
          SOCIAL_AUTH_GITHUB_SECRET = settings_get settings ''SOCIAL_AUTH_GITHUB_SECRET'' PNone
      in
        if list_all truthy [SOCIAL_AUTH_GITHUB_KEY, SOCIAL_AUTH_GITHUB_SECRET] then
          bind_result
            (append_two ''AUTHENTICATION_BACKENDS''
               (settings_get settings ''AUTHENTICATION_BACKENDS'' (PList []))
               ''galaxy_ng.social.GalaxyNGOAuth2'' ''dynaconf_merge'')
            (\<lambda>backends.
               Inr [''INSTALLED_APPS'' \<mapsto>
                      PList [PStr ''social_django'', PStr ''dynaconf_merge_unique''],
                    ''GALAXY_FEATURE_FLAGS__external_authentication'' \<mapsto> PBool True,
                    ''AUTHENTICATION_BACKENDS'' \<mapsto> backends,
                    ''DEFAULT_AUTHENTICATION_BACKENDS'' \<mapsto> backends,
                    ''GALAXY_AUTHENTICATION_BACKENDS'' \<mapsto> backends,
                    ''DEFAULT_AUTHENTICATION_CLASSES'' \<mapsto> socialauth_AUTHENTICATION_CLASSES,
                    ''GALAXY_AUTHENTICATION_CLASSES'' \<mapsto> socialauth_AUTHENTICATION_CLASSES,
                    ''REST_FRAMEWORK_AUTHENTICATION_CLASSES'' \<mapsto>
                      socialauth_AUTHENTICATION_CLASSES,
                    ''SOCIAL_AUTH_PIPELINE'' \<mapsto> socialauth_SOCIAL_AUTH_PIPELINE])
        else Inr Map.empty)"

subsection \<open>configure_logging\<close>

definition configure_logging :: "externals \<Rightarrow> settings \<Rightarrow> data" where
  "configure_logging x settings =
     (let GALAXY_ENABLE_API_ACCESS_LOG =
            settings_get settings ''GALAXY_ENABLE_API_ACCESS_LOG''
              (case getenv x ''GALAXY_ENABLE_API_ACCESS_LOG'' of
                 None \<Rightarrow> PBool False
               | Some v \<Rightarrow> PStr v);
          data = [''GALAXY_ENABLE_API_ACCESS_LOG'' \<mapsto> GALAXY_ENABLE_API_ACCESS_LOG]
      in
        if truthy GALAXY_ENABLE_API_ACCESS_LOG then
          data(''INSTALLED_APPS'' \<mapsto>
                 PList [PStr ''galaxy_ng._vendor.automated_logging'',
                        PStr ''dynaconf_merge_unique''],
               ''MIDDLEWARE'' \<mapsto>
                 PList [PStr ''automated_logging.middleware.AutomatedLoggingMiddleware'',
                        PStr ''dynaconf_merge''],
               ''LOGGING'' \<mapsto> logging_LOGGING,
               ''AUTOMATED_LOGGING'' \<mapsto> logging_AUTOMATED_LOGGING)
        else data)"

subsection \<open>configure_cors\<close>

text \<open>\<^verbatim>\<open>corsmiddleware + settings.get("MIDDLEWARE", [])\<close>: a new list.\<close>

definition configure_cors :: "externals \<Rightarrow> settings \<Rightarrow> error + data" where
  "configure_cors x settings =
     (if getenv x ''DEV_SOURCE_PATH'' = None then Inr Map.empty
      else if truthy (settings_get settings ''GALAXY_ENABLE_CORS'' (PBool False)) then
        (case settings_get settings ''MIDDLEWARE'' (PList []) of
           PList middleware \<Rightarrow>
             Inr [''MIDDLEWARE'' \<mapsto>
                    PList (PStr ''galaxy_ng.app.common.openapi.AllowCorsMiddleware'' # middleware)]
         | PObj c args \<Rightarrow> Inl (IllTyped ''MIDDLEWARE'')
         | _ \<Rightarrow> Inl (TypeError ''can only concatenate list to list''))
      else Inr Map.empty)"

subsection \<open>configure_pulp_ansible\<close>

definition configure_pulp_ansible :: "settings \<Rightarrow> data" where
  "configure_pulp_ansible settings =
     [''ANSIBLE_URL_NAMESPACE'' \<mapsto> PStr ''galaxy:api:v3:'',
      ''ANSIBLE_DEFAULT_DISTRIBUTION_PATH'' \<mapsto>
        settings_get settings ''GALAXY_API_DEFAULT_DISTRIBUTION_BASE_PATH'' (PStr ''published'')]"

subsection \<open>configure_authentication_classes\<close>

definition galaxy_session :: string where
  "galaxy_session = ''galaxy_ng.app.auth.session.SessionAuthentication''"

definition keycloak_auth_classes :: "string list" where
  "keycloak_auth_classes =
     [''galaxy_ng.app.auth.token.ExpiringTokenAuthentication'',
      ''galaxy_ng.app.auth.keycloak.KeycloakBasicAuth'']"

text \<open>
  The loop \<^verbatim>\<open>for class_name in [...]: if class_name not in galaxy_auth_classes:
  galaxy_auth_classes.insert(0, class_name)\<close>.
\<close>

fun insert_missing_classes :: "string list \<Rightarrow> pyval list \<Rightarrow> pyval list" where
  "insert_missing_classes [] classes = classes"
| "insert_missing_classes (class_name # rest) classes =
     insert_missing_classes rest
       (if \<not> py_in (PStr class_name) classes then PStr class_name # classes else classes)"

text \<open>
  \<^verbatim>\<open>if galaxy_auth_classes and galaxy_auth_classes[0] != galaxy_session:\<close> remove the
  session class if it is in the list, then insert it at index 0.
\<close>

definition session_first :: "pyval list \<Rightarrow> error + pyval list" where
  "session_first classes =
     (case classes of
        [] \<Rightarrow> Inr classes
      | c # cs \<Rightarrow>
          if \<not> py_eq c (PStr galaxy_session) then
            (if py_in (PStr galaxy_session) classes then
               (case py_remove classes (PStr galaxy_session) of
                  Inl err \<Rightarrow> Inl err
                | Inr classes' \<Rightarrow> Inr (PStr galaxy_session # classes'))
             else Inr (PStr galaxy_session # classes))
          else Inr classes)"

definition set_authentication_classes :: "data \<Rightarrow> pyval list \<Rightarrow> data" where
  "set_authentication_classes data classes =
     (if classes \<noteq> [] then
        data(''ANSIBLE_AUTHENTICATION_CLASSES'' \<mapsto> PList classes,
             ''GALAXY_AUTHENTICATION_CLASSES'' \<mapsto> PList classes,
             ''REST_FRAMEWORK__DEFAULT_AUTHENTICATION_CLASSES'' \<mapsto> PList classes)
      else data)"

text \<open>The body of the hook on the list \<open>galaxy_auth_classes\<close>.\<close>

definition consolidate_classes :: "data \<Rightarrow> pyval list \<Rightarrow> error + data" where
  "consolidate_classes data galaxy_auth_classes =
     bind_result
       (session_first
          (if data_get data ''GALAXY_AUTH_KEYCLOAK_ENABLED'' PNone = PBool True
           then insert_missing_classes keycloak_auth_classes galaxy_auth_classes
           else galaxy_auth_classes))
       (\<lambda>classes. Inr (set_authentication_classes data classes))"

text \<open>
  A value that is neither \<open>None\<close> nor a list: when it is falsy and keycloak is not
  enabled, no branch touches it and \<open>data\<close> is returned as it is; otherwise the list
  operations fail on it.
\<close>

definition configure_authentication_classes :: "settings \<Rightarrow> data \<Rightarrow> error + data" where
  "configure_authentication_classes settings data =
     (case data_get data ''GALAXY_AUTHENTICATION_CLASSES''
             (settings_get settings ''GALAXY_AUTHENTICATION_CLASSES'' PNone) of
        PNone \<Rightarrow> consolidate_classes data []
      | PList galaxy_auth_classes \<Rightarrow> consolidate_classes data galaxy_auth_classes
      | v \<Rightarrow>
          if \<not> truthy v \<and> data_get data ''GALAXY_AUTH_KEYCLOAK_ENABLED'' PNone \<noteq> PBool True
          then Inr data
          else Inl (IllTyped ''GALAXY_AUTHENTICATION_CLASSES''))"

subsection \<open>configure_password_validators\<close>

text \<open>
  One turn of the loop over \<open>AUTH_PASSWORD_VALIDATORS\<close>: in
  \<^verbatim>\<open>dict_item["OPTIONS"]["min_length"] = int(GALAXY_MINIMUM_PASSWORD_LENGTH)\<close> the right-hand
  side is evaluated first.
\<close>

definition set_min_length :: "externals \<Rightarrow> pyval \<Rightarrow> pyval \<Rightarrow> error + pyval" where
  "set_min_length x min_length dict_item =
     (case dict_item of
        PDict kvs \<Rightarrow>
          (case py_dict_get kvs (PStr ''NAME'') of
             None \<Rightarrow> Inl (KeyError ''NAME'')
           | Some (PStr name) \<Rightarrow>
               if py_endswith name ''MinimumLengthValidator'' then
                 bind_result (py_int x min_length)
                   (\<lambda>n. case py_dict_get kvs (PStr ''OPTIONS'') of
                           None \<Rightarrow> Inl (KeyError ''OPTIONS'')
                         | Some (PDict options) \<Rightarrow>
                             Inr (PDict (py_dict_set kvs (PStr ''OPTIONS'')
                                    (PDict (py_dict_set options (PStr ''min_length'') (PInt n)))))
                         | Some _ \<Rightarrow> Inl (IllTyped ''OPTIONS''))
               else Inr dict_item
           | Some (PObj c args) \<Rightarrow> Inl (IllTyped ''NAME'')
           | Some _ \<Rightarrow> Inl (AttributeError ''endswith''))
      | _ \<Rightarrow> Inl (IllTyped ''AUTH_PASSWORD_VALIDATORS''))"

fun set_min_lengths :: "externals \<Rightarrow> pyval \<Rightarrow> pyval list \<Rightarrow> error + pyval list" where
  "set_min_lengths x min_length [] = Inr []"
| "set_min_lengths x min_length (dict_item # rest) =
     bind_result (set_min_length x min_length dict_item)
       (\<lambda>item'. bind_result (set_min_lengths x min_length rest)
                  (\<lambda>rest'. Inr (item' # rest')))"

definition configure_password_validators :: "externals \<Rightarrow> settings \<Rightarrow> error + data" where
  "configure_password_validators x settings =
     (let GALAXY_MINIMUM_PASSWORD_LENGTH =
            settings_get settings ''GALAXY_MINIMUM_PASSWORD_LENGTH'' (PInt 9)
      in bind_result (settings_attr settings ''AUTH_PASSWORD_VALIDATORS'')
           (\<lambda>AUTH_PASSWORD_VALIDATORS.
              case AUTH_PASSWORD_VALIDATORS of
                PList items \<Rightarrow>
                  bind_result (set_min_lengths x GALAXY_MINIMUM_PASSWORD_LENGTH items)
                    (\<lambda>items'. Inr [''AUTH_PASSWORD_VALIDATORS'' \<mapsto> PList items'])
              | v \<Rightarrow>
                  bind_result (py_iter v)
                    (\<lambda>items.
                       if items = [] then Inr [''AUTH_PASSWORD_VALIDATORS'' \<mapsto> v]
                       else Inl (IllTyped ''AUTH_PASSWORD_VALIDATORS''))))"

subsection \<open>configure_api_base_path\<close>

definition configure_api_base_path :: "settings \<Rightarrow> error + data" where
  "configure_api_base_path settings =
     (case settings_get settings ''GALAXY_API_PATH_PREFIX'' PNone of
        PStr galaxy_api_root \<Rightarrow>
          Inr [''API_ROOT'' \<mapsto> PStr (''/'' @ py_strip CHR ''/'' galaxy_api_root @ ''/pulp/'')]
      | PObj c args \<Rightarrow> Inl (IllTyped ''GALAXY_API_PATH_PREFIX'')
      | _ \<Rightarrow> Inl (AttributeError ''strip''))"

subsection \<open>configure_ldap\<close>

text \<open>\<open>AUTH_LDAP_SCOPE_MAP.get(scope, ldap.SCOPE_SUBTREE)\<close>.\<close>

definition ldap_scope :: "externals \<Rightarrow> pyval \<Rightarrow> error + pyval" where
  "ldap_scope x scope =
     (case scope of
        PStr name \<Rightarrow>
          Inr (if name = ''BASE'' then ldap_SCOPE_BASE x
               else if name = ''ONELEVEL'' then ldap_SCOPE_ONELEVEL x
               else ldap_SCOPE_SUBTREE x)
      | PList xs \<Rightarrow> Inl (TypeError ''unhashable type'')
      | PDict kvs \<Rightarrow> Inl (TypeError ''unhashable type'')
      | _ \<Rightarrow> Inr (ldap_SCOPE_SUBTREE x))"

text \<open>\<open>options[k] = v\<close> when the flag is set, on the dictionary read from the settings.\<close>

definition set_option_if :: "bool \<Rightarrow> string \<Rightarrow> pyval \<Rightarrow> pyval \<Rightarrow> pyval \<Rightarrow> error + pyval" where
  "set_option_if flag key options k v =
     (if flag then
        (case options of
           PDict kvs \<Rightarrow> Inr (PDict (py_dict_set kvs k v))
         | _ \<Rightarrow> Inl (IllTyped key))
      else Inr options)"

text \<open>
  \<^verbatim>\<open>if not settings.get(key): data[key] = LDAPSearch(base_dn, scope, filter)\<close>; the result
  is the update of \<open>data\<close>.
\<close>

definition ldap_search :: "externals \<Rightarrow> settings \<Rightarrow> string \<Rightarrow> pyval \<Rightarrow> pyval \<Rightarrow> pyval
    \<Rightarrow> data \<Rightarrow> error + data" where
  "ldap_search x settings key base_dn scope search_filter data =
     (if \<not> truthy (settings_get settings key PNone) then
        bind_result (ldap_scope x scope)
          (\<lambda>scope'. Inr (data(key \<mapsto> PObj ''LDAPSearch'' [base_dn, scope', search_filter])))
      else Inr data)"

definition ldap_group_type :: "externals \<Rightarrow> settings \<Rightarrow> data \<Rightarrow> error + data" where
  "ldap_group_type x settings data =
     (let classpath =
            settings_get settings ''AUTH_LDAP_GROUP_TYPE_CLASS''
              (PStr ''django_auth_ldap.config:GroupOfNamesType'')
      in if truthy classpath then
           bind_result
             (load_group_type x classpath
                (settings_get settings ''AUTH_LDAP_GROUP_TYPE_PARAMS''
                   (PDict [(PStr ''name_attr'', PStr ''cn'')])))
             (\<lambda>group_type. Inr (data(''AUTH_LDAP_GROUP_TYPE'' \<mapsto> group_type)))
         else Inr data)"

definition ldap_user_attr_map :: "externals \<Rightarrow> pyval \<Rightarrow> data \<Rightarrow> data" where
  "ldap_user_attr_map x AUTH_LDAP_USER_ATTR_MAP data =
     (case AUTH_LDAP_USER_ATTR_MAP of
        PStr text \<Rightarrow>
          data(''AUTH_LDAP_USER_ATTR_MAP'' \<mapsto>
                 (case json_loads x text of None \<Rightarrow> PDict [] | Some v \<Rightarrow> v))
      | _ \<Rightarrow> data)"

definition configure_ldap :: "externals \<Rightarrow> settings \<Rightarrow> error + data" where
  "configure_ldap x settings =
     (let AUTH_LDAP_SERVER_URI = settings_get settings ''AUTH_LDAP_SERVER_URI'' PNone;
          AUTH_LDAP_BIND_DN = settings_get settings ''AUTH_LDAP_BIND_DN'' PNone;
          AUTH_LDAP_BIND_PASSWORD = settings_get settings ''AUTH_LDAP_BIND_PASSWORD'' PNone;
          AUTH_LDAP_USER_SEARCH_BASE_DN =
            settings_get settings ''AUTH_LDAP_USER_SEARCH_BASE_DN'' PNone;
          AUTH_LDAP_USER_SEARCH_SCOPE = settings_get settings ''AUTH_LDAP_USER_SEARCH_SCOPE'' PNone;
          AUTH_LDAP_USER_SEARCH_FILTER =
            settings_get settings ''AUTH_LDAP_USER_SEARCH_FILTER'' PNone;
          AUTH_LDAP_GROUP_SEARCH_BASE_DN =
            settings_get settings ''AUTH_LDAP_GROUP_SEARCH_BASE_DN'' PNone;
          AUTH_LDAP_GROUP_SEARCH_SCOPE =
            settings_get settings ''AUTH_LDAP_GROUP_SEARCH_SCOPE'' PNone;
          AUTH_LDAP_GROUP_SEARCH_FILTER =
            settings_get settings ''AUTH_LDAP_GROUP_SEARCH_FILTER'' PNone;
          AUTH_LDAP_USER_ATTR_MAP = settings_get settings ''AUTH_LDAP_USER_ATTR_MAP'' (PDict [])
      in
        if list_all truthy
             [AUTH_LDAP_SERVER_URI, AUTH_LDAP_BIND_DN, AUTH_LDAP_BIND_PASSWORD,
              AUTH_LDAP_USER_SEARCH_BASE_DN, AUTH_LDAP_USER_SEARCH_SCOPE,
              AUTH_LDAP_USER_SEARCH_FILTER, AUTH_LDAP_GROUP_SEARCH_BASE_DN,
              AUTH_LDAP_GROUP_SEARCH_SCOPE, AUTH_LDAP_GROUP_SEARCH_FILTER]
        then
          bind_result
            (set_option_if (truthy (settings_get settings ''GALAXY_LDAP_SELF_SIGNED_CERT'' PNone))
               ''AUTH_LDAP_GLOBAL_OPTIONS''
               (settings_get settings ''AUTH_LDAP_GLOBAL_OPTIONS'' (PDict []))
               (ldap_OPT_X_TLS_REQUIRE_CERT x) (ldap_OPT_X_TLS_NEVER x))
            (\<lambda>global_options.
          bind_result
            (ldap_search x settings ''AUTH_LDAP_USER_SEARCH'' AUTH_LDAP_USER_SEARCH_BASE_DN
               AUTH_LDAP_USER_SEARCH_SCOPE AUTH_LDAP_USER_SEARCH_FILTER
               [''GALAXY_AUTH_LDAP_ENABLED'' \<mapsto> PBool True,
                ''AUTH_LDAP_GLOBAL_OPTIONS'' \<mapsto> global_options])
            (\<lambda>data.
          bind_result
            (ldap_search x settings ''AUTH_LDAP_GROUP_SEARCH'' AUTH_LDAP_GROUP_SEARCH_BASE_DN
               AUTH_LDAP_GROUP_SEARCH_SCOPE AUTH_LDAP_GROUP_SEARCH_FILTER data)
            (\<lambda>data.
          bind_result (ldap_group_type x settings data)
            (\<lambda>data.
          (let data = ldap_user_attr_map x AUTH_LDAP_USER_ATTR_MAP data;
               data = (if truthy (settings_get settings ''GALAXY_LDAP_LOGGING'' PNone)
                       then data(''LOGGING'' \<mapsto> ldap_LOGGING) else data)
           in
          bind_result
            (set_option_if
               (truthy (settings_get settings ''GALAXY_LDAP_DISABLE_REFERRALS'' PNone))
               ''AUTH_LDAP_CONNECTION_OPTIONS''
               (settings_get settings ''AUTH_LDAP_CONNECTION_OPTIONS'' (PDict []))
               (ldap_OPT_REFERRALS x) (PInt 0))
            (\<lambda>connection_options.
          (let data = data(''AUTH_LDAP_CONNECTION_OPTIONS'' \<mapsto> connection_options)
           in Inr (if truthy
                        (settings_get settings ''GALAXY_LDAP_MIRROR_ONLY_EXISTING_GROUPS'' PNone)
                   then data(''AUTH_LDAP_MIRROR_GROUPS'' \<mapsto> PBool True,
                             ''AUTH_LDAP_MIRROR_GROUPS_EXCEPT'' \<mapsto> PNone)
                   else data))))))))
        else Inr Map.empty)"

subsection \<open>configure_authentication_backends\<close>

definition prefix_backend :: string where
  "prefix_backend = ''ansible_base.lib.backends.prefixed_user_auth.PrefixedUserAuthBackend''"

text \<open>
  \<^verbatim>\<open>backends.extend([item for item in items if item not in backends])\<close>: the
  comprehension is evaluated against \<open>backends\<close> as it is before the call extends it.
\<close>

definition extend_unique :: "pyval list \<Rightarrow> pyval list \<Rightarrow> pyval list" where
  "extend_unique backends items = backends @ filter (\<lambda>item. \<not> py_in item backends) items"

text \<open>\<^verbatim>\<open>if (lst := ...) is not None: backends.extend([...])\<close>.\<close>

definition extend_unique_opt :: "pyval list \<Rightarrow> pyval \<Rightarrow> error + pyval list" where
  "extend_unique_opt backends lst =
     (if lst = PNone then Inr backends
      else bind_result (py_iter lst) (\<lambda>items. Inr (extend_unique backends items)))"

text \<open>
  The first half of the hook: the default backends of the settings, then the backends of
  the earlier hooks, then the backends of the preset.
\<close>

definition merged_backends :: "externals \<Rightarrow> settings \<Rightarrow> data \<Rightarrow> error + pyval list" where
  "merged_backends x settings data =
     (case settings_get settings ''AUTHENTICATION_BACKENDS'' (PList []) of
        PList backends \<Rightarrow>
          bind_result
            (extend_unique_opt backends (data_get data ''AUTHENTICATION_BACKENDS'' PNone))
            (\<lambda>backends1.
               bind_result (settings_attr settings ''AUTHENTICATION_BACKEND_PRESETS_DATA'')
                 (\<lambda>presets.
                    bind_result
                      (box_get x presets
                         (settings_get settings ''AUTHENTICATION_BACKEND_PRESET'' PNone))
                      (\<lambda>preset_list. extend_unique_opt backends1 preset_list)))
      | _ \<Rightarrow> Inl (IllTyped ''AUTHENTICATION_BACKENDS''))"

text \<open>\<^verbatim>\<open>if prefix_backend not in backends: backends.append(prefix_backend)\<close>.\<close>

definition append_prefix_backend :: "pyval list \<Rightarrow> pyval list" where
  "append_prefix_backend backends =
     (if \<not> py_in (PStr prefix_backend) backends then backends @ [PStr prefix_backend]
      else backends)"

text \<open>The block under \<^verbatim>\<open># deduplicate dynaconf_merge ...\<close>.\<close>

definition dedup_dynaconf_merge :: "pyval list \<Rightarrow> pyval list" where
  "dedup_dynaconf_merge backends =
     (if py_count backends (PStr ''dynaconf_merge'') > 1
      then filter (\<lambda>x. \<not> py_eq x (PStr ''dynaconf_merge'')) backends @ [PStr ''dynaconf_merge'']
      else backends)"

definition final_backends :: "pyval list \<Rightarrow> pyval list" where
  "final_backends backends = dedup_dynaconf_merge (append_prefix_backend backends)"

definition configure_authentication_backends ::
    "externals \<Rightarrow> settings \<Rightarrow> data \<Rightarrow> error + data" where
  "configure_authentication_backends x settings data =
     bind_result (merged_backends x settings data)
       (\<lambda>backends.
          Inr (if length (final_backends backends) > 0
               then data(''AUTHENTICATION_BACKENDS'' \<mapsto> PList (final_backends backends))
               else data))"

subsection \<open>configure_renderers\<close>

text \<open>
  \<^verbatim>\<open>re.search(r'galaxy(-dev|-stage)*.ansible.com', s)\<close>: somewhere in \<open>s\<close> the word
  \<open>galaxy\<close>, any number of \<open>-dev\<close> and \<open>-stage\<close>, any character but a newline,
  \<open>ansible\<close>, any character but a newline, \<open>com\<close>. \<open>after_groups s\<close> lists what is
  left of \<open>s\<close> after 0, 1, 2, ... groups.
\<close>

function after_groups :: "string \<Rightarrow> string list" where
  "after_groups s =
     s # (if take 4 s = ''-dev'' then after_groups (drop 4 s)
          else if take 6 s = ''-stage'' then after_groups (drop 6 s)
          else [])"
  by pat_completeness auto
termination
proof (relation "measure length")
  show "wf (measure length)" by simp
next
  fix s :: string
  assume "take 4 s = ''-dev''"
  then have "s \<noteq> []" by auto
  then show "(drop 4 s, s) \<in> measure length" by simp
next
  fix s :: string
  assume "take 6 s = ''-stage''"
  then have "s \<noteq> []" by auto
  then show "(drop 6 s, s) \<in> measure length" by simp
qed

declare after_groups.simps [simp del]

definition re_dot :: "char \<Rightarrow> bool" where
  "re_dot c = (c \<noteq> CHR 0x0A)"

definition match_tail :: "string \<Rightarrow> bool" where
  "match_tail s =
     (case s of
        [] \<Rightarrow> False
      | c # r \<Rightarrow>
          re_dot c \<and> take 7 r = ''ansible'' \<and>
          (case drop 7 r of [] \<Rightarrow> False | d # r' \<Rightarrow> re_dot d \<and> take 3 r' = ''com''))"

definition match_here :: "string \<Rightarrow> bool" where
  "match_here s = (take 6 s = ''galaxy'' \<and> list_ex match_tail (after_groups (drop 6 s)))"

fun re_search_galaxy :: "string \<Rightarrow> bool" where
  "re_search_galaxy [] = match_here []"
| "re_search_galaxy (c # s) = (match_here (c # s) \<or> re_search_galaxy s)"

definition configure_renderers :: "settings \<Rightarrow> error + data" where
  "configure_renderers settings =
     (case settings_get settings ''CONTENT_ORIGIN'' (PStr []) of
        PStr content_origin \<Rightarrow>
          if re_search_galaxy content_origin then
            (case settings_get settings ''REST_FRAMEWORK__DEFAULT_RENDERER_CLASSES'' (PList []) of
               PList renderers \<Rightarrow>
                 Inr [''REST_FRAMEWORK__DEFAULT_RENDERER_CLASSES'' \<mapsto>
                        PList (renderers @
                               [PStr ''galaxy_ng.app.renderers.CustomBrowsableAPIRenderer''])]
             | PObj c args \<Rightarrow> Inl (IllTyped ''REST_FRAMEWORK__DEFAULT_RENDERER_CLASSES'')
             | _ \<Rightarrow> Inl (AttributeError ''append''))
          else Inr Map.empty
      | PObj c args \<Rightarrow> Inl (IllTyped ''CONTENT_ORIGIN'')
      | _ \<Rightarrow> Inl (TypeError ''expected string or bytes-like object''))"

subsection \<open>configure_legacy_roles\<close>

definition configure_legacy_roles :: "settings \<Rightarrow> data" where
  "configure_legacy_roles settings =
     [''GALAXY_FEATURE_FLAGS__legacy_roles'' \<mapsto>
        settings_get settings ''GALAXY_ENABLE_LEGACY_ROLES'' (PBool False)]"

subsection \<open>validate\<close>

text \<open>
  The part of dynaconf's \<open>Validator\<close> that \<open>validate\<close> uses: a rule binds one key to
  one operation (\<open>eq\<close>, \<open>is_in\<close>) and may carry a \<open>when\<close> rule. A rule does not
  ask for the key to exist (\<open>must_exist\<close> is not given): on a key that is not set it
  passes without evaluating the operation. The \<open>when\<close> rule is validated first, and if
  it raises \<open>ValidationError\<close> the rule returns without validating anything.
\<close>

datatype operation = Eq pyval | Is_in "pyval list"

datatype validator = Validator string operation "validator option"

fun operation_name :: "operation \<Rightarrow> string" where
  "operation_name (Eq other) = ''eq''"
| "operation_name (Is_in other) = ''is_in''"

fun operation_holds :: "operation \<Rightarrow> pyval \<Rightarrow> bool" where
  "operation_holds (Eq other) v = py_eq v other"
| "operation_holds (Is_in other) v = py_in v other"

definition validate_items :: "settings \<Rightarrow> string \<Rightarrow> operation \<Rightarrow> error + unit" where
  "validate_items settings name op =
     (case settings name of
        None \<Rightarrow> Inr ()
      | Some v \<Rightarrow>
          if operation_holds op v then Inr ()
          else Inl (ValidationError name (operation_name op)))"

fun validator_validate :: "settings \<Rightarrow> validator \<Rightarrow> error + unit" where
  "validator_validate settings (Validator name op None) = validate_items settings name op"
| "validator_validate settings (Validator name op (Some when)) =
     (case validator_validate settings when of
        Inl (ValidationError n opn) \<Rightarrow> Inr ()
      | Inl err \<Rightarrow> Inl err
      | Inr u \<Rightarrow> validate_items settings name op)"

definition approval_rule :: validator where
  "approval_rule =
     Validator ''GALAXY_REQUIRE_SIGNATURE_FOR_APPROVAL'' (Eq (PBool False))
       (Some (Validator ''GALAXY_REQUIRE_CONTENT_APPROVAL'' (Eq (PBool False)) None))"

definition preset_rule :: "pyval list \<Rightarrow> validator" where
  "preset_rule preset_keys =
     Validator ''AUTHENTICATION_BACKEND_PRESET''
       (Is_in (PStr ''local'' # PStr ''custom'' # preset_keys)) None"

text \<open>\<open>presets.keys()\<close>.\<close>

definition keys_of :: "pyval \<Rightarrow> error + pyval list" where
  "keys_of presets =
     (case presets of
        PDict kvs \<Rightarrow> Inr (map fst kvs)
      | PObj c args \<Rightarrow> Inl (IllTyped ''AUTHENTICATION_BACKEND_PRESETS_DATA'')
      | _ \<Rightarrow> Inl (AttributeError ''keys''))"

text \<open>
  \<open>settings.validators.validate()\<close> runs the validators in the order of their
  registration: those the settings object already had, then the two rules.
\<close>

definition validate :: "externals \<Rightarrow> settings \<Rightarrow> error + unit" where
  "validate x settings =
     bind_result (keys_of (settings_get settings ''AUTHENTICATION_BACKEND_PRESETS_DATA'' (PDict [])))
       (\<lambda>preset_keys.
          case prior_validators x settings of
            Some err \<Rightarrow> Inl err
          | None \<Rightarrow>
              bind_result (validator_validate settings approval_rule)
                (\<lambda>u. validator_validate settings (preset_rule preset_keys)))"

subsection \<open>configure_dynamic_settings\<close>

text \<open>
  The names \<open>locals()\<close> holds inside the loop that builds \<open>hook_functions\<close>. A
  \<open>Hook\<close> is kept as the name of the local it wraps.
\<close>

definition local_names :: "string list" where
  "local_names =
     [''settings'', ''enabled_hooks'', ''DynaconfFormatError'', ''DynaconfParseError'',
      ''Settings'', ''Action'', ''Hook'', ''HookValue'', ''SourceMetadata'',
      ''read_settings_from_cache_or_db'', ''alter_hostname_settings'', ''hook_functions'',
      ''func_name'']"

fun make_hooks :: "pyval list \<Rightarrow> error + pyval list" where
  "make_hooks [] = Inr []"
| "make_hooks (func_name # rest) =
     (case func_name of
        PStr name \<Rightarrow>
          if name \<in> set local_names then
            bind_result (make_hooks rest) (\<lambda>hooks. Inr (PObj ''Hook'' [PStr name] # hooks))
          else Inl (KeyError name)
      | PList xs \<Rightarrow> Inl (TypeError ''unhashable type'')
      | PDict kvs \<Rightarrow> Inl (TypeError ''unhashable type'')
      | _ \<Rightarrow> Inl (KeyError ''func_name''))"

definition degradation_notice :: log_record where
  "degradation_notice =
     (''ERROR'',
      ''Galaxy Dynamic Settings requires Dynaconf >=3.2.3, system will work normally but dynamic settings from database will be ignored: %s'')"

definition configure_dynamic_settings ::
    "externals \<Rightarrow> settings \<Rightarrow> (error + data) \<times> log_record list" where
  "configure_dynamic_settings x settings =
     (let enabled_hooks = settings_get settings ''DYNACONF_AFTER_GET_HOOKS'' PNone
      in
        if \<not> truthy enabled_hooks then (Inr Map.empty, [])
        else if \<not> hooking_importable x then (Inr Map.empty, [degradation_notice])
        else
          (bind_result (py_iter enabled_hooks)
             (\<lambda>names.
                bind_result (make_hooks names)
                  (\<lambda>hook_functions.
                     Inr [''_registered_hooks'' \<mapsto>
                            PDict [(PObj ''Action.AFTER_GET'' [], PList hook_functions)]])),
           [(''INFO'', ''Enabling Dynamic Settings Feature'')]))"

subsection \<open>The hooks registered on get\<close>

text \<open>
  What a read finds outside the settings object: whether the django apps are ready, what
  the calls \<open>get_settings_from_cache()\<close> and \<open>get_settings_from_db()\<close> of
  \<open>galaxy_ng.app.tasks.settings_cache\<close> give (the dictionary returned, or the
  exception the call raises), and the headers of the current request, if there is one.
\<close>

record runtime =
  apps_ready :: bool
  cache_read :: "error + dynamic_data"
  db_read :: "error + dynamic_data"
  current_request :: "(string \<rightharpoonup> string) option"

text \<open>The data and the identifier of its source (\<open>metadata.identifier\<close>).\<close>

definition fetch_dynamic :: "runtime \<Rightarrow> error + dynamic_data \<times> string" where
  "fetch_dynamic w =
     bind_result (cache_read w)
       (\<lambda>data.
          if data \<noteq> [] then Inr (data, ''cache'')
          else bind_result (db_read w) (\<lambda>data. Inr (data, ''db'')))"

text \<open>The debug record of the \<^verbatim>\<open>if not data: ... elif ...: ... else: ...\<close> block.\<close>

definition loaded_debug :: "string \<Rightarrow> dynamic_data \<Rightarrow> log_record" where
  "loaded_debug key data =
     (if data = [] then
        (''DEBUG'', ''Dynamic settings are empty, reading key %s from default sources'')
      else if key \<in> set (map (\<lambda>(k, v). split_head k) data) then
        (''DEBUG'', ''Dynamic setting for key: %s loaded from %s'')
      else (''DEBUG'', ''Key %s not on db/cache, %s other keys loaded from %s''))"

text \<open>
  The result of a read: the value returned or the exception raised, the settings object
  as the read leaves it, and the records logged.
\<close>

definition read_settings_from_cache_or_db ::
    "externals \<Rightarrow> runtime \<Rightarrow> settings \<Rightarrow> pyval \<Rightarrow> string
      \<Rightarrow> (error + pyval) \<times> settings \<times> log_record list" where
  "read_settings_from_cache_or_db x w temp_settings v key =
     (if \<not> apps_ready w \<or> py_upper key \<notin> set (DYNAMIC_SETTINGS_SCHEMA x)
      then (Inr v, temp_settings, [])
      else
        (case fetch_dynamic w of
           Inl err \<Rightarrow> (Inl err, temp_settings, [])
         | Inr (data, ident) \<Rightarrow>
             (case (if data \<noteq> [] then temp_update x temp_settings data ident
                    else (temp_settings, None)) of
                (temp', None) \<Rightarrow>
                  (Inr (settings_get temp' key v), temp', [loaded_debug key data])
              | (temp', Some err) \<Rightarrow>
                  if err = DynaconfFormatError \<or> err = DynaconfParseError then
                    (Inr (settings_get temp' key v), temp',
                     [(''ERROR'', ''Error loading dynamic settings: %s''),
                      loaded_debug key data])
                  else (Inl err, temp', []))))"

definition ALLOWED_KEYS :: "string list" where
  "ALLOWED_KEYS = [''CONTENT_ORIGIN'', ''ANSIBLE_API_HOSTNAME'', ''TOKEN_SERVER'']"

text \<open>\<open>headers.get(name, default)\<close>.\<close>

definition header_get :: "(string \<rightharpoonup> string) \<Rightarrow> string \<Rightarrow> string \<Rightarrow> string" where
  "header_get headers name dflt = (case headers name of None \<Rightarrow> dflt | Some v \<Rightarrow> v)"

definition alter_hostname_settings :: "runtime \<Rightarrow> settings \<Rightarrow> pyval \<Rightarrow> string \<Rightarrow> pyval" where
  "alter_hostname_settings w temp_settings v key =
     (if \<not> apps_ready w \<or> py_upper key \<notin> set ALLOWED_KEYS then v
      else
        (case current_request w of
           Some headers \<Rightarrow>
             (let proto = header_get headers ''X-Forwarded-Proto'' ''http'';
                  host = header_get headers ''Host'' ''localhost:5001'';
                  baseurl = proto @ ''://'' @ host
              in PStr (if py_upper key = ''TOKEN_SERVER'' then baseurl @ ''/token/''
                       else baseurl))
         | None \<Rightarrow> v))"

subsection \<open>configure_dab_required_settings\<close>

definition configure_dab_required_settings ::
    "externals \<Rightarrow> settings \<Rightarrow> data \<Rightarrow> error + data" where
  "configure_dab_required_settings x settings data =
     bind_result (dynaconf_update x (dab_factory x) (as_dict x settings))
       (\<lambda>dab_dynaconf.
     bind_result (dynaconf_update x dab_dynaconf data)
       (\<lambda>dab_dynaconf.
     bind_result
       (dynaconf_set x dab_dynaconf ''INSTALLED_APPS''
          (PStr ''@merge_unique ansible_base.jwt_consumer''))
       (\<lambda>dab_dynaconf.
     bind_result (load_dab_settings x dab_dynaconf)
       (\<lambda>dab_dynaconf.
     bind_result (settings_attr dab_dynaconf ''INSTALLED_APPS'')
       (\<lambda>installed_apps.
     bind_result (py_iter installed_apps)
       (\<lambda>apps.
     bind_result
       (dynaconf_set x dab_dynaconf ''INSTALLED_APPS''
          (PList (filter (\<lambda>app. \<not> py_eq app (PStr ''ansible_base.jwt_consumer'')) apps)))
       (\<lambda>dab_dynaconf.
     bind_result (load_standard_settings_files x dab_dynaconf)
       (\<lambda>dab_dynaconf.
          case dab_validate x dab_dynaconf of
            Some err \<Rightarrow> Inl err
          | None \<Rightarrow>
              Inr ((as_dict x dab_dynaconf)
                     (''DAB_DYNACONF'' \<mapsto> PObj ''Dynaconf'' [PStr ''HUB'']))))))))))"

subsection \<open>configure_dynaconf_cli\<close>

definition configure_dynaconf_cli :: "externals \<Rightarrow> settings \<Rightarrow> data \<Rightarrow> error + data" where
  "configure_dynaconf_cli x pulp_settings data =
     (case data ''DAB_DYNACONF'' of
        None \<Rightarrow> Inl (AttributeError ''DAB_DYNACONF not found in settings'')
      | Some dab_dynaconf \<Rightarrow>
          bind_result (cli_dynaconf x pulp_settings data dab_dynaconf)
            (\<lambda>cli. Inr (data(''CLI_DYNACONF'' \<mapsto> cli))))"

section \<open>post\<close>

text \<open>The hooks up to the assignment of \<open>IS_CONNECTED_TO_RESOURCE_SERVER\<close>.\<close>

definition post_hooks :: "externals \<Rightarrow> settings \<Rightarrow> error + data" where
  "post_hooks x settings =
     bind_result (update_with [''dynaconf_merge'' \<mapsto> PBool False] (configure_ldap x settings))
       (\<lambda>data.
     bind_result (Inr (data ++ configure_logging x settings))
       (\<lambda>data.
     bind_result (update_with data (configure_keycloak x settings))
       (\<lambda>data.
     bind_result (update_with data (configure_socialauth settings))
       (\<lambda>data.
     bind_result (update_with data (configure_cors x settings))
       (\<lambda>data.
     bind_result (Inr (data ++ configure_pulp_ansible settings))
       (\<lambda>data.
     bind_result (update_with data (configure_renderers settings))
       (\<lambda>data.
     bind_result (update_with data (configure_password_validators x settings))
       (\<lambda>data.
     bind_result (update_with data (configure_api_base_path settings))
       (\<lambda>data.
     bind_result (Inr (data ++ configure_legacy_roles settings))
       (\<lambda>data.
     bind_result (update_with data (configure_dab_required_settings x settings data))
       (\<lambda>data.
     bind_result (update_with data (toggle_feature_flags x settings))
       (\<lambda>data.
     bind_result (update_with data (configure_authentication_backends x settings data))
       (\<lambda>data.
     bind_result (update_with data (configure_authentication_classes settings data))
       (\<lambda>data.
          Inr (data(''IS_CONNECTED_TO_RESOURCE_SERVER'' \<mapsto>
                 PBool (settings_get settings ''RESOURCE_SERVER__URL'' PNone \<noteq> PNone)))
       ))))))))))))))"

text \<open>
  \<open>post\<close>: the dictionary returned or the exception raised, and the records logged on
  the way.
\<close>

definition post ::
    "externals \<Rightarrow> settings \<Rightarrow> bool \<Rightarrow> bool \<Rightarrow> (error + data) \<times> log_record list" where
  "post x settings run_dynamic run_validate =
     (case post_hooks x settings of
        Inl err \<Rightarrow> (Inl err, [])
      | Inr data \<Rightarrow>
          (case (if run_dynamic then configure_dynamic_settings x settings
                 else (Inr Map.empty, [])) of
             (dynamic, logged) \<Rightarrow>
               (bind_result (update_with data dynamic)
                  (\<lambda>data.
                     bind_result (if run_validate then validate x settings else Inr ())
                       (\<lambda>u. update_with data (configure_dynaconf_cli x settings data))),
                logged)))"

section \<open>The spec's formulations\<close>

text \<open>
  The spec's \<open>MERGE_UNIQUE\<close>, in its words:
  \<^verbatim>\<open>resolved = existing ++ [x for x in incoming if x not in existing]\<close>.
\<close>

definition merge_unique_spec :: "pyval list \<Rightarrow> pyval list \<Rightarrow> pyval list" where
  "merge_unique_spec existing incoming = existing @ [x \<leftarrow> incoming. \<not> py_in x existing]"

text \<open>
  The spec's hook pipeline, \<open>resolve(initial_store, hook_list)\<close>: the hooks run in list
  order and every partial update is merged into the running result. A hook of \<open>post\<close>
  is called either with the settings alone or with the settings and the accumulated
  \<open>data\<close>. \<open>run_hooks\<close> hands every hook the initial settings; \<open>run_hooks_merged\<close> hands
  it, in the spec's words, \<open>a read-only view of the store as merged so far\<close>.
\<close>

datatype hook =
    Reads_settings "settings \<Rightarrow> error + data"
  | Reads_settings_and_data "settings \<Rightarrow> data \<Rightarrow> error + data"

fun run_hook :: "hook \<Rightarrow> settings \<Rightarrow> data \<Rightarrow> error + data" where
  "run_hook (Reads_settings h) view data = update_with data (h view)"
| "run_hook (Reads_settings_and_data h) view data = update_with data (h view data)"

fun run_hooks :: "settings \<Rightarrow> hook list \<Rightarrow> data \<Rightarrow> error + data" where
  "run_hooks settings [] data = Inr data"
| "run_hooks settings (h # hs) data =
     bind_result (run_hook h settings data) (run_hooks settings hs)"

fun run_hooks_merged :: "settings \<Rightarrow> hook list \<Rightarrow> data \<Rightarrow> error + data" where
  "run_hooks_merged settings [] data = Inr data"
| "run_hooks_merged settings (h # hs) data =
     bind_result (run_hook h (settings ++ data) data) (run_hooks_merged settings hs)"

definition hook_list :: "externals \<Rightarrow> hook list" where
  "hook_list x =
     [Reads_settings (configure_ldap x),
      Reads_settings (\<lambda>settings. Inr (configure_logging x settings)),
      Reads_settings (configure_keycloak x),
      Reads_settings configure_socialauth,
      Reads_settings (configure_cors x),
      Reads_settings (\<lambda>settings. Inr (configure_pulp_ansible settings)),
      Reads_settings configure_renderers,
      Reads_settings (configure_password_validators x),
      Reads_settings configure_api_base_path,
      Reads_settings (\<lambda>settings. Inr (configure_legacy_roles settings)),
      Reads_settings_and_data (configure_dab_required_settings x),
      Reads_settings (toggle_feature_flags x),
      Reads_settings_and_data (configure_authentication_backends x),
      Reads_settings_and_data configure_authentication_classes]"

section \<open>Concrete inputs\<close>

text \<open>Stand-ins for the collaborators, simple enough to evaluate.\<close>

definition exact_box_get :: "pyval \<Rightarrow> pyval \<Rightarrow> error + pyval" where
  "exact_box_get box k =
     (case box of
        PDict kvs \<Rightarrow> (case py_dict_get kvs k of None \<Rightarrow> Inr PNone | Some v \<Rightarrow> Inr v)
      | _ \<Rightarrow> Inl (IllTyped ''get''))"

definition posix_join :: "pyval \<Rightarrow> string \<Rightarrow> error + pyval" where
  "posix_join base name =
     (case base of
        PStr b \<Rightarrow>
          Inr (PStr (if b = [] then name
                     else if last b = CHR ''/'' then b @ name
                     else b @ ''/'' @ name))
      | _ \<Rightarrow> Inl (TypeError ''expected str, bytes or os.PathLike object''))"

definition simple_set :: "settings \<Rightarrow> string \<Rightarrow> pyval \<Rightarrow> error + settings" where
  "simple_set s k v =
     (if v = PStr ''@merge_unique ansible_base.jwt_consumer'' then
        (case settings_get s k (PList []) of
           PList xs \<Rightarrow> Inr (s(k \<mapsto> PList (xs @ [PStr ''ansible_base.jwt_consumer''])))
         | _ \<Rightarrow> Inl (External ''merge''))
      else Inr (s(k \<mapsto> v)))"

definition ext0 :: externals where
  "ext0 =
     \<lparr> getenv = (\<lambda>name. None),
       os_path_join = posix_join,
       str_of = (\<lambda>v. ''object''),
       int_of_str = (\<lambda>s. None),
       json_loads = (\<lambda>s. None),
       ldap_OPT_X_TLS_REQUIRE_CERT = PInt 24582,
       ldap_OPT_X_TLS_NEVER = PInt 0,
       ldap_OPT_REFERRALS = PInt 8,
       ldap_SCOPE_BASE = PInt 0,
       ldap_SCOPE_ONELEVEL = PInt 1,
       ldap_SCOPE_SUBTREE = PInt 2,
       load_group_type = (\<lambda>classpath params. Inr (PObj ''GroupType'' [classpath, params])),
       box_get = exact_box_get,
       as_dict = (\<lambda>s. s),
       dynaconf_update = (\<lambda>s d. Inr (s ++ d)),
       dynaconf_set = simple_set,
       temp_update = (\<lambda>t d ident. (t ++ map_of d, None)),
       prior_validators = (\<lambda>s. None),
       hooking_importable = True,
       cli_dynaconf = (\<lambda>s d dab. Inr (PObj ''Dynaconf'' [PStr ''CLI''])),
       dab_factory = Map.empty,
       load_dab_settings = (\<lambda>s. Inr s),
       load_standard_settings_files = (\<lambda>s. Inr s),
       dab_validate = (\<lambda>s. None),
       toggle_feature_flags = (\<lambda>s. Inr Map.empty),
       DYNAMIC_SETTINGS_SCHEMA =
         [''GALAXY_REQUIRE_CONTENT_APPROVAL'', ''GALAXY_SIGNATURE_UPLOAD_ENABLED''] \<rparr>"

text \<open>A development machine (\<open>DEV_SOURCE_PATH\<close> is set), and an older dynaconf.\<close>

definition ext_dev :: externals where
  "ext_dev = ext0 \<lparr> getenv := [''DEV_SOURCE_PATH'' \<mapsto> ''galaxy_ng''] \<rparr>"

definition ext_old :: externals where
  "ext_old = ext0 \<lparr> hooking_importable := False \<rparr>"

definition token_auth :: string where
  "token_auth = ''rest_framework.authentication.TokenAuthentication''"

definition basic_auth :: string where
  "basic_auth = ''rest_framework.authentication.BasicAuthentication''"

definition model_backend :: string where
  "model_backend = ''django.contrib.auth.backends.ModelBackend''"

definition security_middleware :: string where
  "security_middleware = ''django.middleware.security.SecurityMiddleware''"

definition settings_session_second :: settings where
  "settings_session_second =
     [''GALAXY_AUTHENTICATION_CLASSES'' \<mapsto>
        PList [PStr token_auth, PStr galaxy_session, PStr basic_auth]]"

definition settings_session_twice :: settings where
  "settings_session_twice =
     [''GALAXY_AUTHENTICATION_CLASSES'' \<mapsto>
        PList [PStr token_auth, PStr galaxy_session, PStr galaxy_session]]"

definition settings_prefix_twice :: settings where
  "settings_prefix_twice =
     [''AUTHENTICATION_BACKENDS'' \<mapsto> PList [PStr prefix_backend, PStr prefix_backend],
      ''AUTHENTICATION_BACKEND_PRESETS_DATA'' \<mapsto> PDict []]"

text \<open>Settings with which \<open>post\<close> runs to its end.\<close>

definition settings0 :: settings where
  "settings0 =
     [''BASE_DIR'' \<mapsto> PStr ''/app'',
      ''INSTALLED_APPS'' \<mapsto> PList [PStr ''galaxy_ng''],
      ''MIDDLEWARE'' \<mapsto> PList [PStr security_middleware],
      ''AUTH_PASSWORD_VALIDATORS'' \<mapsto>
        PList [PDict [(PStr ''NAME'', PStr ''MinimumLengthValidator''),
                      (PStr ''OPTIONS'', PDict [(PStr ''min_length'', PInt 8)])]],
      ''GALAXY_API_PATH_PREFIX'' \<mapsto> PStr ''/api/galaxy/'',
      ''AUTHENTICATION_BACKENDS'' \<mapsto> PList [PStr model_backend],
      ''AUTHENTICATION_BACKEND_PRESETS_DATA'' \<mapsto>
        PDict [(PStr ''ldap'', PList [PStr ''galaxy_ng.app.auth.ldap.GalaxyLDAPBackend''])],
      ''AUTHENTICATION_BACKEND_PRESET'' \<mapsto> PStr ''local'',
      ''GALAXY_AUTHENTICATION_CLASSES'' \<mapsto>
        PList [PStr token_auth, PStr galaxy_session, PStr basic_auth],
      ''RESOURCE_SERVER__URL'' \<mapsto> PStr ''https://gateway.example.org'']"

text \<open>The same with the access log and CORS switched on.\<close>

definition settings_dev :: settings where
  "settings_dev =
     settings0(''GALAXY_ENABLE_API_ACCESS_LOG'' \<mapsto> PBool True,
               ''GALAXY_ENABLE_CORS'' \<mapsto> PBool True)"


definition settings_signature_without_approval :: settings where
  "settings_signature_without_approval =
     [''GALAXY_REQUIRE_CONTENT_APPROVAL'' \<mapsto> PBool False,
      ''GALAXY_REQUIRE_SIGNATURE_FOR_APPROVAL'' \<mapsto> PBool True,
      ''AUTHENTICATION_BACKEND_PRESETS_DATA'' \<mapsto> PDict [(PStr ''ldap'', PList [])],
      ''AUTHENTICATION_BACKEND_PRESET'' \<mapsto> PStr ''local'']"

definition settings_preset_ldap :: settings where
  "settings_preset_ldap =
     [''AUTHENTICATION_BACKEND_PRESETS_DATA'' \<mapsto> PDict [(PStr ''ldap'', PList [])],
      ''AUTHENTICATION_BACKEND_PRESET'' \<mapsto> PStr ''ldap'']"

definition settings_preset_unknown :: settings where
  "settings_preset_unknown =
     [''AUTHENTICATION_BACKEND_PRESETS_DATA'' \<mapsto> PDict [(PStr ''ldap'', PList [])],
      ''AUTHENTICATION_BACKEND_PRESET'' \<mapsto> PStr ''kerberos'']"

text \<open>Settings and states of the world for the reads through the override layer.\<close>

definition settings_hooks_enabled :: settings where
  "settings_hooks_enabled =
     [''DYNACONF_AFTER_GET_HOOKS'' \<mapsto>
        PList [PStr ''read_settings_from_cache_or_db'', PStr ''alter_hostname_settings'']]"

definition settings_static :: settings where
  "settings_static =
     [''GALAXY_REQUIRE_CONTENT_APPROVAL'' \<mapsto> PBool True,
      ''CONTENT_ORIGIN'' \<mapsto> PStr ''https://static.example.com'']"

definition cached_data :: dynamic_data where
  "cached_data = [(''GALAXY_REQUIRE_CONTENT_APPROVAL'', PBool False)]"

definition stored_data :: dynamic_data where
  "stored_data = [(''GALAXY_REQUIRE_CONTENT_APPROVAL'', PInt 0)]"

definition runtime_booting :: runtime where
  "runtime_booting =
     \<lparr> apps_ready = False, cache_read = Inr cached_data, db_read = Inr stored_data,
       current_request = None \<rparr>"

definition runtime_cache_hit :: runtime where
  "runtime_cache_hit = runtime_booting \<lparr> apps_ready := True \<rparr>"

definition runtime_db_hit :: runtime where
  "runtime_db_hit = runtime_cache_hit \<lparr> cache_read := Inr [] \<rparr>"

definition runtime_miss :: runtime where
  "runtime_miss = runtime_db_hit \<lparr> db_read := Inr [] \<rparr>"

definition runtime_cache_down :: runtime where
  "runtime_cache_down = runtime_cache_hit \<lparr> cache_read := Inl (External ''ConnectionError'') \<rparr>"

definition example_headers :: "string \<rightharpoonup> string" where
  "example_headers = [''X-Forwarded-Proto'' \<mapsto> ''https'', ''Host'' \<mapsto> ''example.org'']"

definition runtime_request :: runtime where
  "runtime_request = runtime_miss \<lparr> current_request := Some example_headers \<rparr>"

definition runtime_booting_request :: runtime where
  "runtime_booting_request = runtime_request \<lparr> apps_ready := False \<rparr>"

text \<open>A dynaconf whose \<open>update\<close> raises \<open>ValueError\<close> on a value it cannot convert.\<close>

definition ext_value_error :: externals where
  "ext_value_error =
     ext0 \<lparr> temp_update := (\<lambda>t d ident. (t, Some (ValueError ''invalid literal for int()''))) \<rparr>"

text \<open>A dynaconf whose \<open>update\<close> raises \<open>DynaconfParseError\<close> and leaves the store as it was.\<close>

definition ext_parse_error :: externals where
  "ext_parse_error = ext0 \<lparr> temp_update := (\<lambda>t d ident. (t, Some DynaconfParseError)) \<rparr>"


text \<open>Settings whose presets are a list, not a mapping.\<close>

definition settings_presets_list :: settings where
  "settings_presets_list =
     [''AUTHENTICATION_BACKEND_PRESETS_DATA'' \<mapsto> PList [PStr ''ldap''],
      ''AUTHENTICATION_BACKEND_PRESET'' \<mapsto> PStr ''ldap'']"



section \<open>Auxiliary facts\<close>

lemma py_eq_PStr_right: "py_eq v (PStr s) = (v = PStr s)"
  by (cases v) auto

lemma py_eq_PStr_left: "py_eq (PStr s) v = (v = PStr s)"
  by (cases v) auto

lemma py_in_PStr: "py_in (PStr s) xs = (PStr s \<in> set xs)"
  by (auto simp: py_in_def list_ex_iff py_eq_PStr_right)

lemma py_count_PStr: "py_count xs (PStr s) = count_list xs (PStr s)"
  by (induction xs) (auto simp: py_count_def py_eq_PStr_right)

lemma py_remove_PStr:
  "PStr s \<in> set xs \<Longrightarrow> py_remove xs (PStr s) = Inr (remove1 (PStr s) xs)"
  by (induction xs) (auto simp: py_eq_PStr_right)

lemma bind_result_Inr_iff:
  "bind_result r f = Inr y \<longleftrightarrow> (\<exists>v. r = Inr v \<and> f v = Inr y)"
  by (cases r) (auto simp: bind_result_def)

lemma update_with_Inr_iff:
  "update_with data r = Inr d \<longleftrightarrow> (\<exists>p. r = Inr p \<and> d = data ++ p)"
  by (cases r) (auto simp: update_with_def bind_result_def)

lemma count_list_remove1_Suc:
  "v \<in> set xs \<Longrightarrow> Suc (count_list (remove1 v xs) v) = count_list xs v"
  by (induction xs) auto

lemma count_list_filter:
  "count_list (filter P xs) v = (if P v then count_list xs v else 0)"
  by (induction xs) auto

lemma session_first_eq:
  "session_first classes =
     Inr (if classes = [] \<or> hd classes = PStr galaxy_session then classes
          else PStr galaxy_session # remove1 (PStr galaxy_session) classes)"
  by (cases classes)
     (auto simp: session_first_def py_eq_PStr_right py_in_PStr py_remove_PStr remove1_idem)

section \<open>Authentication classes: the session class comes first\<close>

lemma insert_missing_keycloak_classes:
  "insert_missing_classes keycloak_auth_classes classes =
     filter (\<lambda>c. c \<notin> set classes) (rev (map PStr keycloak_auth_classes)) @ classes"
  by (simp add: keycloak_auth_classes_def py_in_PStr)

text \<open>
  C2, as the code has it. The input list is the value of \<open>GALAXY_AUTHENTICATION_CLASSES\<close>
  in \<open>data\<close>, or else in the settings. When it holds the session class, but not at index
  0, \<open>configure_authentication_classes\<close> stores under its three keys a list \<open>out\<close>
  with the session class at index 0: the first occurrence of the session class has been
  removed and reinserted in front. When keycloak is enabled, the keycloak classes that
  the input does not hold (\<open>KeycloakBasicAuth\<close>, then \<open>ExpiringTokenAuthentication\<close>)
  follow it, as \<open>pre\<close>; when keycloak is not enabled, \<open>pre\<close> is empty. The session
  class occurs in \<open>out\<close> as often as in the input, so exactly once when the input holds
  it once, and all other elements of the input keep their relative order, after \<open>pre\<close>.
\<close>

theorem configure_authentication_classes_session_first:
  assumes input: "data_get data ''GALAXY_AUTHENTICATION_CLASSES''
                    (settings_get settings ''GALAXY_AUTHENTICATION_CLASSES'' PNone) =
                  PList classes"
    and present: "PStr galaxy_session \<in> set classes"
    and misplaced: "hd classes \<noteq> PStr galaxy_session"
  shows "\<exists>pre out.
           pre = (if data_get data ''GALAXY_AUTH_KEYCLOAK_ENABLED'' PNone = PBool True
                  then filter (\<lambda>c. c \<notin> set classes) (rev (map PStr keycloak_auth_classes))
                  else []) \<and>
           out = PStr galaxy_session # pre @ remove1 (PStr galaxy_session) classes \<and>
           configure_authentication_classes settings data =
             Inr (data(''ANSIBLE_AUTHENTICATION_CLASSES'' \<mapsto> PList out,
                       ''GALAXY_AUTHENTICATION_CLASSES'' \<mapsto> PList out,
                       ''REST_FRAMEWORK__DEFAULT_AUTHENTICATION_CLASSES'' \<mapsto> PList out)) \<and>
           out ! 0 = PStr galaxy_session \<and>
           count_list out (PStr galaxy_session) = count_list classes (PStr galaxy_session) \<and>
           filter (\<lambda>c. c \<noteq> PStr galaxy_session) out =
             pre @ filter (\<lambda>c. c \<noteq> PStr galaxy_session) classes"
proof -
  define pre where "pre =
    (if data_get data ''GALAXY_AUTH_KEYCLOAK_ENABLED'' PNone = PBool True
     then filter (\<lambda>c. c \<notin> set classes) (rev (map PStr keycloak_auth_classes))
     else [])"
  define ys where "ys =
    (if data_get data ''GALAXY_AUTH_KEYCLOAK_ENABLED'' PNone = PBool True
     then insert_missing_classes keycloak_auth_classes classes else classes)"
  have ys: "ys = pre @ classes"
    by (simp add: ys_def pre_def insert_missing_keycloak_classes)
  have notin: "PStr galaxy_session \<notin> set pre"
    by (auto simp: pre_def keycloak_auth_classes_def galaxy_session_def)
  have ne: "classes \<noteq> []" using present by auto
  have hd_ys: "ys \<noteq> [] \<and> hd ys \<noteq> PStr galaxy_session"
  proof (cases pre)
    case Nil
    then show ?thesis using ys ne misplaced by simp
  next
    case (Cons p ps)
    then show ?thesis using ys notin by auto
  qed
  define out where "out = PStr galaxy_session # pre @ remove1 (PStr galaxy_session) classes"
  have rm: "remove1 (PStr galaxy_session) ys = pre @ remove1 (PStr galaxy_session) classes"
    using ys notin by (simp add: remove1_append)
  have sf: "session_first ys = Inr out"
    using hd_ys rm by (simp add: session_first_eq out_def)
  have out_ne: "out \<noteq> []" by (simp add: out_def)
  have res: "configure_authentication_classes settings data =
      Inr (data(''ANSIBLE_AUTHENTICATION_CLASSES'' \<mapsto> PList out,
                ''GALAXY_AUTHENTICATION_CLASSES'' \<mapsto> PList out,
                ''REST_FRAMEWORK__DEFAULT_AUTHENTICATION_CLASSES'' \<mapsto> PList out))"
    using sf out_ne
    by (simp add: configure_authentication_classes_def input consolidate_classes_def
        bind_result_def set_authentication_classes_def ys_def [symmetric])
  have cnt_pre: "count_list pre (PStr galaxy_session) = 0"
    using notin by (simp add: count_list_0_iff)
  have cnt: "count_list out (PStr galaxy_session) = count_list classes (PStr galaxy_session)"
    using count_list_remove1_Suc [OF present] by (simp add: out_def cnt_pre del: count_list_remove1)
  have flt_pre: "filter (\<lambda>c. c \<noteq> PStr galaxy_session) pre = pre"
    using notin by (simp add: filter_id_conv) blast
  have flt_rm: "filter (\<lambda>c. c \<noteq> PStr galaxy_session) (remove1 (PStr galaxy_session) classes) =
      filter (\<lambda>c. c \<noteq> PStr galaxy_session) classes"
    by (induction classes) auto
  have flt: "filter (\<lambda>c. c \<noteq> PStr galaxy_session) out =
      pre @ filter (\<lambda>c. c \<noteq> PStr galaxy_session) classes"
    by (simp add: out_def flt_pre flt_rm)
  have "out ! 0 = PStr galaxy_session" by (simp add: out_def)
  with res cnt flt out_def pre_def show ?thesis by blast
qed

theorem configure_authentication_classes_session_first_witness:
  "data_get Map.empty ''GALAXY_AUTHENTICATION_CLASSES''
     (settings_get settings_session_second ''GALAXY_AUTHENTICATION_CLASSES'' PNone) =
     PList [PStr token_auth, PStr galaxy_session, PStr basic_auth] \<and>
   PStr galaxy_session \<in> set [PStr token_auth, PStr galaxy_session, PStr basic_auth] \<and>
   hd [PStr token_auth, PStr galaxy_session, PStr basic_auth] \<noteq> PStr galaxy_session \<and>
   result_key (configure_authentication_classes settings_session_second Map.empty)
     ''GALAXY_AUTHENTICATION_CLASSES'' =
     Some (PList [PStr galaxy_session, PStr token_auth, PStr basic_auth]) \<and>
   data_get [''GALAXY_AUTH_KEYCLOAK_ENABLED'' \<mapsto> PBool True] ''GALAXY_AUTH_KEYCLOAK_ENABLED''
     PNone = PBool True \<and>
   result_key
     (configure_authentication_classes settings_session_second
        [''GALAXY_AUTH_KEYCLOAK_ENABLED'' \<mapsto> PBool True])
     ''GALAXY_AUTHENTICATION_CLASSES'' =
     Some (PList [PStr galaxy_session,
                  PStr ''galaxy_ng.app.auth.keycloak.KeycloakBasicAuth'',
                  PStr ''galaxy_ng.app.auth.token.ExpiringTokenAuthentication'',
                  PStr token_auth, PStr basic_auth])"
proof -
  let ?cs = "[PStr token_auth, PStr galaxy_session, PStr basic_auth]"
  let ?kc = "[''GALAXY_AUTH_KEYCLOAK_ENABLED'' \<mapsto> PBool True]"
  have h1: "data_get Map.empty ''GALAXY_AUTHENTICATION_CLASSES''
     (settings_get settings_session_second ''GALAXY_AUTHENTICATION_CLASSES'' PNone) = PList ?cs"
    by (simp add: settings_session_second_def data_get_def settings_get_def)
  have h1': "data_get ?kc ''GALAXY_AUTHENTICATION_CLASSES''
     (settings_get settings_session_second ''GALAXY_AUTHENTICATION_CLASSES'' PNone) = PList ?cs"
    by (simp add: settings_session_second_def data_get_def settings_get_def)
  have h2: "PStr galaxy_session \<in> set ?cs" by simp
  have h3: "hd ?cs \<noteq> PStr galaxy_session"
    by (simp add: token_auth_def galaxy_session_def)
  have off: "data_get Map.empty ''GALAXY_AUTH_KEYCLOAK_ENABLED'' PNone \<noteq> PBool True"
    by (simp add: data_get_def)
  have on: "data_get ?kc ''GALAXY_AUTH_KEYCLOAK_ENABLED'' PNone = PBool True"
    by (simp add: data_get_def)
  from configure_authentication_classes_session_first [OF h1 h2 h3] off
  have "result_key (configure_authentication_classes settings_session_second Map.empty)
     ''GALAXY_AUTHENTICATION_CLASSES'' =
     Some (PList (PStr galaxy_session # remove1 (PStr galaxy_session) ?cs))"
    by (auto simp: result_key_def)
  then have r1: "result_key (configure_authentication_classes settings_session_second Map.empty)
     ''GALAXY_AUTHENTICATION_CLASSES'' =
     Some (PList [PStr galaxy_session, PStr token_auth, PStr basic_auth])"
    by (simp add: token_auth_def galaxy_session_def)
  from configure_authentication_classes_session_first [OF h1' h2 h3] on
  have "result_key (configure_authentication_classes settings_session_second ?kc)
     ''GALAXY_AUTHENTICATION_CLASSES'' =
     Some (PList (PStr galaxy_session #
       filter (\<lambda>c. c \<notin> set ?cs) (rev (map PStr keycloak_auth_classes)) @
       remove1 (PStr galaxy_session) ?cs))"
    by (auto simp: result_key_def)
  then have r2: "result_key (configure_authentication_classes settings_session_second ?kc)
     ''GALAXY_AUTHENTICATION_CLASSES'' =
     Some (PList [PStr galaxy_session,
                  PStr ''galaxy_ng.app.auth.keycloak.KeycloakBasicAuth'',
                  PStr ''galaxy_ng.app.auth.token.ExpiringTokenAuthentication'',
                  PStr token_auth, PStr basic_auth])"
    by (simp add: token_auth_def galaxy_session_def basic_auth_def keycloak_auth_classes_def)
  from h1 h2 h3 r1 on r2 show ?thesis by blast
qed

text \<open>
  C2 as stated fails on a list that holds the session class twice: only its first
  occurrence is removed before it is put in front.
\<close>

theorem session_class_twice_counterexample:
  "data_get Map.empty ''GALAXY_AUTHENTICATION_CLASSES''
     (settings_get settings_session_twice ''GALAXY_AUTHENTICATION_CLASSES'' PNone) =
     PList [PStr token_auth, PStr galaxy_session, PStr galaxy_session] \<and>
   hd [PStr token_auth, PStr galaxy_session, PStr galaxy_session] \<noteq> PStr galaxy_session \<and>
   result_key (configure_authentication_classes settings_session_twice Map.empty)
     ''GALAXY_AUTHENTICATION_CLASSES'' =
     Some (PList [PStr galaxy_session, PStr token_auth, PStr galaxy_session]) \<and>
   count_list [PStr galaxy_session, PStr token_auth, PStr galaxy_session]
     (PStr galaxy_session) = 2"
  by (simp add: settings_session_twice_def data_get_def settings_get_def
      configure_authentication_classes_def consolidate_classes_def bind_result_def
      session_first_def py_in_def set_authentication_classes_def result_key_def
      token_auth_def galaxy_session_def)

section \<open>Authentication backends: the append-unique merge\<close>

lemma extend_unique_is_merge_unique: "extend_unique existing incoming = merge_unique_spec existing incoming"
  by (simp add: extend_unique_def merge_unique_spec_def)

lemma extend_unique_opt_cases:
  assumes "lst = PNone \<and> items = [] \<or> lst = PList items"
  shows "extend_unique_opt backends lst = Inr (merge_unique_spec backends items)"
  using assms
  by (auto simp: extend_unique_opt_def bind_result_def extend_unique_is_merge_unique
      merge_unique_spec_def)

lemma count_merge_unique_PStr:
  "count_list (merge_unique_spec existing incoming) (PStr s) =
     (if PStr s \<in> set existing then count_list existing (PStr s)
      else count_list incoming (PStr s))"
  by (simp add: merge_unique_spec_def count_list_filter py_in_PStr count_list_0_iff)

lemma count_final_backends:
  "count_list (final_backends backends) (PStr prefix_backend) =
     (if PStr prefix_backend \<in> set backends then count_list backends (PStr prefix_backend)
      else 1)"
proof -
  have ne: "PStr prefix_backend \<noteq> PStr ''dynaconf_merge''"
    by (simp add: prefix_backend_def)
  have dedup: "count_list (dedup_dynaconf_merge bs) (PStr prefix_backend) =
      count_list bs (PStr prefix_backend)" for bs
    using ne by (simp add: dedup_dynaconf_merge_def count_list_filter py_eq_PStr_right)
  show ?thesis
    by (simp add: final_backends_def dedup append_prefix_backend_def py_in_PStr
        count_list_0_iff)
qed

lemma final_backends_nonempty: "final_backends backends \<noteq> []"
  by (auto simp: final_backends_def dedup_dynaconf_merge_def append_prefix_backend_def
      py_in_PStr)

text \<open>
  C5, as the code has it. \<open>existing\<close> is the list of the settings, \<open>incoming\<close> the
  list the earlier hooks left in \<open>data\<close> (empty when they left none) and
  \<open>preset_list\<close> the list of the selected preset (empty when there is none). Each
  \<open>extend\<close> of the hook is the spec's merge, \<open>existing\<close> followed by the elements of
  \<open>incoming\<close> that are not in \<open>existing\<close>, in their order, and merging \<open>[1, 2]\<close> with
  \<open>[2, 3]\<close> gives \<open>[1, 2, 3]\<close>. The prefixed-user backend is appended only when the
  merged list does not hold it: the result then holds it once, and otherwise as often as
  the merged list does. So it occurs exactly once in the result whenever none of the
  three lists holds it more than once.
\<close>

theorem configure_authentication_backends_merge_unique:
  assumes existing: "settings_get settings ''AUTHENTICATION_BACKENDS'' (PList []) = PList existing"
    and earlier: "data_get data ''AUTHENTICATION_BACKENDS'' PNone = earlier"
    and incoming: "earlier = PNone \<and> incoming = [] \<or> earlier = PList incoming"
    and presets: "settings_attr settings ''AUTHENTICATION_BACKEND_PRESETS_DATA'' = Inr presets"
    and preset: "box_get x presets (settings_get settings ''AUTHENTICATION_BACKEND_PRESET'' PNone) =
                 Inr preset"
    and preset_list: "preset = PNone \<and> preset_list = [] \<or> preset = PList preset_list"
  shows "\<exists>backends.
           backends = merge_unique_spec (merge_unique_spec existing incoming) preset_list \<and>
           merge_unique_spec existing incoming =
             existing @ filter (\<lambda>item. \<not> py_in item existing) incoming \<and>
           merge_unique_spec [PInt 1, PInt 2] [PInt 2, PInt 3] = [PInt 1, PInt 2, PInt 3] \<and>
           configure_authentication_backends x settings data =
             Inr (data(''AUTHENTICATION_BACKENDS'' \<mapsto> PList (final_backends backends))) \<and>
           count_list (final_backends backends) (PStr prefix_backend) =
             (if PStr prefix_backend \<in> set backends
              then count_list backends (PStr prefix_backend) else 1) \<and>
           (count_list existing (PStr prefix_backend) \<le> 1 \<and>
            count_list incoming (PStr prefix_backend) \<le> 1 \<and>
            count_list preset_list (PStr prefix_backend) \<le> 1 \<longrightarrow>
            count_list (final_backends backends) (PStr prefix_backend) = 1)"
proof -
  define backends where
    "backends = merge_unique_spec (merge_unique_spec existing incoming) preset_list"
  have merged: "merged_backends x settings data = Inr backends"
    using extend_unique_opt_cases [OF incoming, of existing]
      extend_unique_opt_cases [OF preset_list, of "merge_unique_spec existing incoming"]
    by (simp add: merged_backends_def existing earlier presets preset bind_result_def
        backends_def)
  have res: "configure_authentication_backends x settings data =
      Inr (data(''AUTHENTICATION_BACKENDS'' \<mapsto> PList (final_backends backends)))"
    using final_backends_nonempty [of backends]
    by (simp add: configure_authentication_backends_def merged bind_result_def)
  have example: "merge_unique_spec [PInt 1, PInt 2] [PInt 2, PInt 3] = [PInt 1, PInt 2, PInt 3]"
    by (simp add: merge_unique_spec_def py_in_def)
  have once: "count_list (final_backends backends) (PStr prefix_backend) = 1"
    if "count_list existing (PStr prefix_backend) \<le> 1"
      "count_list incoming (PStr prefix_backend) \<le> 1"
      "count_list preset_list (PStr prefix_backend) \<le> 1"
  proof -
    have "count_list backends (PStr prefix_backend) \<le> 1"
      using that by (simp add: backends_def count_merge_unique_PStr)
    moreover have "PStr prefix_backend \<in> set backends \<Longrightarrow>
        count_list backends (PStr prefix_backend) \<noteq> 0"
      by (simp add: count_list_0_iff)
    ultimately show ?thesis
      by (cases "PStr prefix_backend \<in> set backends") (auto simp: count_final_backends)
  qed
  show ?thesis
    using res example once count_final_backends [of backends]
    by (intro exI [of _ backends]) (simp add: backends_def merge_unique_spec_def)
qed

theorem configure_authentication_backends_merge_unique_witness:
  "settings_get settings0 ''AUTHENTICATION_BACKENDS'' (PList []) = PList [PStr model_backend] \<and>
   data_get [''AUTHENTICATION_BACKENDS'' \<mapsto>
               PList [PStr model_backend, PStr ''galaxy_ng.social.GalaxyNGOAuth2'']]
     ''AUTHENTICATION_BACKENDS'' PNone =
     PList [PStr model_backend, PStr ''galaxy_ng.social.GalaxyNGOAuth2''] \<and>
   box_get ext0 (PDict [(PStr ''ldap'', PList [PStr ''galaxy_ng.app.auth.ldap.GalaxyLDAPBackend''])])
     (settings_get settings0 ''AUTHENTICATION_BACKEND_PRESET'' PNone) = Inr PNone \<and>
   result_key
     (configure_authentication_backends ext0 settings0
        [''AUTHENTICATION_BACKENDS'' \<mapsto>
           PList [PStr model_backend, PStr ''galaxy_ng.social.GalaxyNGOAuth2'']])
     ''AUTHENTICATION_BACKENDS'' =
     Some (PList [PStr model_backend, PStr ''galaxy_ng.social.GalaxyNGOAuth2'',
                  PStr prefix_backend])"
proof -
  let ?incoming = "[PStr model_backend, PStr ''galaxy_ng.social.GalaxyNGOAuth2'']"
  let ?data = "[''AUTHENTICATION_BACKENDS'' \<mapsto> PList ?incoming]"
  let ?presets = "PDict [(PStr ''ldap'', PList [PStr ''galaxy_ng.app.auth.ldap.GalaxyLDAPBackend''])]"
  have h1: "settings_get settings0 ''AUTHENTICATION_BACKENDS'' (PList []) =
      PList [PStr model_backend]"
    by (simp add: settings_get_def settings0_def)
  have h2: "data_get ?data ''AUTHENTICATION_BACKENDS'' PNone = PList ?incoming"
    by (simp add: data_get_def)
  have h3: "PList ?incoming = PNone \<and> ?incoming = [] \<or> PList ?incoming = PList ?incoming"
    by simp
  have h4: "settings_attr settings0 ''AUTHENTICATION_BACKEND_PRESETS_DATA'' = Inr ?presets"
    by (simp add: settings_attr_def settings0_def)
  have h5: "box_get ext0 ?presets (settings_get settings0 ''AUTHENTICATION_BACKEND_PRESET'' PNone) =
      Inr PNone"
    by (simp add: ext0_def exact_box_get_def settings_get_def settings0_def)
  have h6: "PNone = PNone \<and> ([]::pyval list) = [] \<or> PNone = PList []"
    by simp
  have fin: "final_backends
      (merge_unique_spec (merge_unique_spec [PStr model_backend] ?incoming) []) =
      [PStr model_backend, PStr ''galaxy_ng.social.GalaxyNGOAuth2'', PStr prefix_backend]"
    by (simp add: merge_unique_spec_def py_in_def final_backends_def append_prefix_backend_def
        dedup_dynaconf_merge_def py_count_def model_backend_def prefix_backend_def)
  from configure_authentication_backends_merge_unique [OF h1 h2 h3 h4 h5 h6]
  have "configure_authentication_backends ext0 settings0 ?data =
      Inr (?data(''AUTHENTICATION_BACKENDS'' \<mapsto> PList (final_backends
        (merge_unique_spec (merge_unique_spec [PStr model_backend] ?incoming) []))))"
    by blast
  then have "result_key (configure_authentication_backends ext0 settings0 ?data)
      ''AUTHENTICATION_BACKENDS'' =
      Some (PList [PStr model_backend, PStr ''galaxy_ng.social.GalaxyNGOAuth2'',
                   PStr prefix_backend])"
    by (simp add: result_key_def fin)
  with h1 h2 h5 show ?thesis by blast
qed

text \<open>
  C5 as stated fails where the settings already hold the prefixed-user backend twice: it
  is not appended, and it is not deduplicated either.
\<close>

theorem prefix_backend_twice_counterexample:
  "result_key (configure_authentication_backends ext0 settings_prefix_twice Map.empty)
     ''AUTHENTICATION_BACKENDS'' =
     Some (PList [PStr prefix_backend, PStr prefix_backend]) \<and>
   count_list [PStr prefix_backend, PStr prefix_backend] (PStr prefix_backend) = 2"
  by (simp add: configure_authentication_backends_def merged_backends_def
      settings_prefix_twice_def settings_get_def data_get_def settings_attr_def
      extend_unique_opt_def bind_result_def ext0_def exact_box_get_def final_backends_def
      append_prefix_backend_def dedup_dynaconf_merge_def py_in_def py_count_def
      result_key_def prefix_backend_def)

section \<open>Validation\<close>

lemma validator_validate_approval_rule:
  "validator_validate settings approval_rule =
     (case validate_items settings ''GALAXY_REQUIRE_CONTENT_APPROVAL'' (Eq (PBool False)) of
        Inl err \<Rightarrow> Inr ()
      | Inr u \<Rightarrow> validate_items settings ''GALAXY_REQUIRE_SIGNATURE_FOR_APPROVAL'' (Eq (PBool False)))"
  by (auto simp: approval_rule_def validate_items_def split: option.splits sum.splits error.splits)

lemma validator_validate_preset_rule:
  "validator_validate settings (preset_rule preset_keys) =
     (case settings ''AUTHENTICATION_BACKEND_PRESET'' of
        None \<Rightarrow> Inr ()
      | Some v \<Rightarrow>
          if py_in v (PStr ''local'' # PStr ''custom'' # preset_keys) then Inr ()
          else Inl (ValidationError ''AUTHENTICATION_BACKEND_PRESET'' ''is_in''))"
  by (simp add: preset_rule_def validate_items_def split: option.splits)

lemma approval_rule_fails_iff:
  "validator_validate settings approval_rule = Inl err \<longleftrightarrow>
     err = ValidationError ''GALAXY_REQUIRE_SIGNATURE_FOR_APPROVAL'' ''eq'' \<and>
     (\<forall>c. settings ''GALAXY_REQUIRE_CONTENT_APPROVAL'' = Some c \<longrightarrow> py_eq c (PBool False)) \<and>
     (\<exists>b. settings ''GALAXY_REQUIRE_SIGNATURE_FOR_APPROVAL'' = Some b \<and> \<not> py_eq b (PBool False))"
  by (auto simp: validator_validate_approval_rule validate_items_def split: option.splits)




text \<open>
  C7, as the code has it. \<open>validate\<close> first takes the keys of
  \<open>AUTHENTICATION_BACKEND_PRESETS_DATA\<close>, and raises there (\<open>AttributeError\<close>) when the
  value is not a mapping, before any rule is validated. Then it runs the validators the
  settings object already had, then the approval rule, then the preset rule, and the first
  error is raised. So when the first two pass, \<open>validate\<close> raises (the
  \<open>ValidationError\<close> of the preset rule) exactly when \<open>AUTHENTICATION_BACKEND_PRESET\<close>
  is set to a value that is not in \<open>local\<close>, \<open>custom\<close> and the keys of the presets, and
  passes otherwise; a value equal to a key of the presets passes. When the earlier
  validators pass and the approval rule fails, \<open>validate\<close> raises the
  \<open>ValidationError\<close> of the approval rule, whatever the preset is; that rule fails
  exactly when \<open>GALAXY_REQUIRE_CONTENT_APPROVAL\<close> is not set or equal to \<open>False\<close> and
  \<open>GALAXY_REQUIRE_SIGNATURE_FOR_APPROVAL\<close> is set to a value that is not equal to
  \<open>False\<close>.
\<close>

theorem validate_preset_membership:
  "(keys_of (settings_get settings ''AUTHENTICATION_BACKEND_PRESETS_DATA'' (PDict [])) =
      Inr preset_keys \<and>
    prior_validators x settings = None \<and>
    validator_validate settings approval_rule = Inr () \<longrightarrow>
      (validate x settings = Inl (ValidationError ''AUTHENTICATION_BACKEND_PRESET'' ''is_in'') \<longleftrightarrow>
         (\<exists>v. settings ''AUTHENTICATION_BACKEND_PRESET'' = Some v \<and>
              \<not> py_in v (PStr ''local'' # PStr ''custom'' # preset_keys))) \<and>
      (validate x settings = Inr () \<longleftrightarrow>
         \<not> (\<exists>v. settings ''AUTHENTICATION_BACKEND_PRESET'' = Some v \<and>
                \<not> py_in v (PStr ''local'' # PStr ''custom'' # preset_keys))) \<and>
      (\<forall>v. settings ''AUTHENTICATION_BACKEND_PRESET'' = Some v \<and> py_in v preset_keys \<longrightarrow>
           validate x settings = Inr ())) \<and>
   (keys_of (settings_get settings ''AUTHENTICATION_BACKEND_PRESETS_DATA'' (PDict [])) =
      Inr preset_keys \<and>
    prior_validators x settings = None \<and>
    validator_validate settings approval_rule = Inl err \<longrightarrow>
      validate x settings = Inl err \<and>
      err = ValidationError ''GALAXY_REQUIRE_SIGNATURE_FOR_APPROVAL'' ''eq'') \<and>
   (validator_validate settings approval_rule = Inl err \<longleftrightarrow>
      err = ValidationError ''GALAXY_REQUIRE_SIGNATURE_FOR_APPROVAL'' ''eq'' \<and>
      (\<forall>c. settings ''GALAXY_REQUIRE_CONTENT_APPROVAL'' = Some c \<longrightarrow> py_eq c (PBool False)) \<and>
      (\<exists>b. settings ''GALAXY_REQUIRE_SIGNATURE_FOR_APPROVAL'' = Some b \<and>
           \<not> py_eq b (PBool False))) \<and>
   (keys_of (settings_get settings ''AUTHENTICATION_BACKEND_PRESETS_DATA'' (PDict [])) =
      Inr preset_keys \<and>
    prior_validators x settings = Some err \<longrightarrow>
      validate x settings = Inl err) \<and>
   (keys_of (settings_get settings ''AUTHENTICATION_BACKEND_PRESETS_DATA'' (PDict [])) =
      Inl err \<longrightarrow>
      validate x settings = Inl err)"
proof -
  have member: "py_in v (PStr ''local'' # PStr ''custom'' # preset_keys)"
    if "py_in v preset_keys" for v
    using that by (simp add: py_in_def)
  have pass: "(validate x settings = Inl (ValidationError ''AUTHENTICATION_BACKEND_PRESET'' ''is_in'') \<longleftrightarrow>
         (\<exists>v. settings ''AUTHENTICATION_BACKEND_PRESET'' = Some v \<and>
              \<not> py_in v (PStr ''local'' # PStr ''custom'' # preset_keys))) \<and>
      (validate x settings = Inr () \<longleftrightarrow>
         \<not> (\<exists>v. settings ''AUTHENTICATION_BACKEND_PRESET'' = Some v \<and>
                \<not> py_in v (PStr ''local'' # PStr ''custom'' # preset_keys))) \<and>
      (\<forall>v. settings ''AUTHENTICATION_BACKEND_PRESET'' = Some v \<and> py_in v preset_keys \<longrightarrow>
           validate x settings = Inr ())"
    if presets: "keys_of (settings_get settings ''AUTHENTICATION_BACKEND_PRESETS_DATA'' (PDict [])) =
        Inr preset_keys"
      and prior: "prior_validators x settings = None"
      and approval: "validator_validate settings approval_rule = Inr ()"
  proof -
    have v: "validate x settings = validator_validate settings (preset_rule preset_keys)"
      by (simp add: validate_def presets prior approval bind_result_def)
    show ?thesis
      unfolding v validator_validate_preset_rule
      using member by (auto split: option.splits)
  qed
  have fail: "validate x settings = Inl err \<and>
      err = ValidationError ''GALAXY_REQUIRE_SIGNATURE_FOR_APPROVAL'' ''eq''"
    if presets: "keys_of (settings_get settings ''AUTHENTICATION_BACKEND_PRESETS_DATA'' (PDict [])) =
        Inr preset_keys"
      and prior: "prior_validators x settings = None"
      and approval: "validator_validate settings approval_rule = Inl err"
    using approval approval_rule_fails_iff [of settings err]
    by (simp add: validate_def presets prior bind_result_def)
  have earlier: "validate x settings = Inl err"
    if "keys_of (settings_get settings ''AUTHENTICATION_BACKEND_PRESETS_DATA'' (PDict [])) =
        Inr preset_keys"
      "prior_validators x settings = Some err"
    using that by (simp add: validate_def bind_result_def)
  have keys: "validate x settings = Inl err"
    if "keys_of (settings_get settings ''AUTHENTICATION_BACKEND_PRESETS_DATA'' (PDict [])) = Inl err"
    using that by (simp add: validate_def bind_result_def)
  from pass fail approval_rule_fails_iff [of settings err] earlier keys
  show ?thesis by blast
qed

theorem validate_preset_membership_witness:
  "keys_of (settings_get settings_preset_ldap ''AUTHENTICATION_BACKEND_PRESETS_DATA'' (PDict [])) =
     Inr [PStr ''ldap''] \<and>
   prior_validators ext0 settings_preset_ldap = None \<and>
   validator_validate settings_preset_ldap approval_rule = Inr () \<and>
   settings_preset_ldap ''AUTHENTICATION_BACKEND_PRESET'' = Some (PStr ''ldap'') \<and>
   py_in (PStr ''ldap'') [PStr ''ldap''] \<and>
   validate ext0 settings_preset_ldap = Inr () \<and>
   keys_of (settings_get settings_preset_unknown ''AUTHENTICATION_BACKEND_PRESETS_DATA'' (PDict [])) =
     Inr [PStr ''ldap''] \<and>
   settings_preset_unknown ''AUTHENTICATION_BACKEND_PRESET'' = Some (PStr ''kerberos'') \<and>
   \<not> py_in (PStr ''kerberos'') [PStr ''local'', PStr ''custom'', PStr ''ldap''] \<and>
   validate ext0 settings_preset_unknown =
     Inl (ValidationError ''AUTHENTICATION_BACKEND_PRESET'' ''is_in'') \<and>
   validator_validate settings_signature_without_approval approval_rule =
     Inl (ValidationError ''GALAXY_REQUIRE_SIGNATURE_FOR_APPROVAL'' ''eq'') \<and>
   validate ext0 settings_signature_without_approval =
     Inl (ValidationError ''GALAXY_REQUIRE_SIGNATURE_FOR_APPROVAL'' ''eq'') \<and>
   keys_of (settings_get settings_presets_list ''AUTHENTICATION_BACKEND_PRESETS_DATA'' (PDict [])) =
     Inl (AttributeError ''keys'') \<and>
   validate ext0 settings_presets_list = Inl (AttributeError ''keys'')"
proof -
  have k1: "keys_of (settings_get settings_preset_ldap ''AUTHENTICATION_BACKEND_PRESETS_DATA''
      (PDict [])) = Inr [PStr ''ldap'']"
    by (simp add: settings_preset_ldap_def settings_get_def keys_of_def)
  have p1: "prior_validators ext0 settings_preset_ldap = None"
    by (simp add: ext0_def)
  have a1: "validator_validate settings_preset_ldap approval_rule = Inr ()"
    by (simp add: validator_validate_approval_rule validate_items_def settings_preset_ldap_def)
  have s1: "settings_preset_ldap ''AUTHENTICATION_BACKEND_PRESET'' = Some (PStr ''ldap'')"
    by (simp add: settings_preset_ldap_def)
  have m1: "py_in (PStr ''ldap'') [PStr ''ldap'']"
    by (simp add: py_in_def)
  have r1: "validate ext0 settings_preset_ldap = Inr ()"
    using validate_preset_membership
      [where settings = settings_preset_ldap and x = ext0 and preset_keys = "[PStr ''ldap'']"]
      k1 p1 a1 s1 m1
    by blast
  have k2: "keys_of (settings_get settings_preset_unknown ''AUTHENTICATION_BACKEND_PRESETS_DATA''
      (PDict [])) = Inr [PStr ''ldap'']"
    by (simp add: settings_preset_unknown_def settings_get_def keys_of_def)
  have p2: "prior_validators ext0 settings_preset_unknown = None"
    by (simp add: ext0_def)
  have a2: "validator_validate settings_preset_unknown approval_rule = Inr ()"
    by (simp add: validator_validate_approval_rule validate_items_def
        settings_preset_unknown_def)
  have s2: "settings_preset_unknown ''AUTHENTICATION_BACKEND_PRESET'' = Some (PStr ''kerberos'')"
    by (simp add: settings_preset_unknown_def)
  have m2: "\<not> py_in (PStr ''kerberos'') [PStr ''local'', PStr ''custom'', PStr ''ldap'']"
    by (simp add: py_in_def)
  have r2: "validate ext0 settings_preset_unknown =
      Inl (ValidationError ''AUTHENTICATION_BACKEND_PRESET'' ''is_in'')"
    using validate_preset_membership
      [where settings = settings_preset_unknown and x = ext0 and preset_keys = "[PStr ''ldap'']"]
      k2 p2 a2 s2 m2
    by blast
  have k3: "keys_of (settings_get settings_signature_without_approval
      ''AUTHENTICATION_BACKEND_PRESETS_DATA'' (PDict [])) = Inr [PStr ''ldap'']"
    by (simp add: settings_signature_without_approval_def settings_get_def keys_of_def)
  have p3: "prior_validators ext0 settings_signature_without_approval = None"
    by (simp add: ext0_def)
  have a3: "validator_validate settings_signature_without_approval approval_rule =
      Inl (ValidationError ''GALAXY_REQUIRE_SIGNATURE_FOR_APPROVAL'' ''eq'')"
    by (simp add: validator_validate_approval_rule validate_items_def
        settings_signature_without_approval_def)
  have r3: "validate ext0 settings_signature_without_approval =
      Inl (ValidationError ''GALAXY_REQUIRE_SIGNATURE_FOR_APPROVAL'' ''eq'')"
    using validate_preset_membership
      [where settings = settings_signature_without_approval and x = ext0
         and preset_keys = "[PStr ''ldap'']"
         and err = "ValidationError ''GALAXY_REQUIRE_SIGNATURE_FOR_APPROVAL'' ''eq''"]
      k3 p3 a3
    by blast
  have k4: "keys_of (settings_get settings_presets_list ''AUTHENTICATION_BACKEND_PRESETS_DATA''
      (PDict [])) = Inl (AttributeError ''keys'')"
    by (simp add: settings_presets_list_def settings_get_def keys_of_def)
  have r4: "validate ext0 settings_presets_list = Inl (AttributeError ''keys'')"
    using validate_preset_membership
      [where settings = settings_presets_list and x = ext0 and err = "AttributeError ''keys''"]
      k4
    by blast
  from k1 p1 a1 s1 m1 r1 k2 s2 m2 r2 a3 r3 k4 r4 show ?thesis by blast
qed

text \<open>
  C7 as stated fails where the preset is a member of the permitted set and the approval
  rule is violated: \<open>validate\<close> raises the \<open>ValidationError\<close> of the approval rule.
\<close>

theorem validate_raises_for_approval_counterexample:
  "settings_signature_without_approval ''AUTHENTICATION_BACKEND_PRESET'' = Some (PStr ''local'') \<and>
   py_in (PStr ''local'') [PStr ''local'', PStr ''custom'', PStr ''ldap''] \<and>
   validate ext0 settings_signature_without_approval =
     Inl (ValidationError ''GALAXY_REQUIRE_SIGNATURE_FOR_APPROVAL'' ''eq'')"
  by (simp add: settings_signature_without_approval_def py_in_def validate_def settings_get_def
      keys_of_def bind_result_def ext0_def validator_validate_approval_rule validate_items_def)

section \<open>The dynamic override layer\<close>

text \<open>
  C8. When the hooking modules of dynaconf cannot be imported,
  \<open>configure_dynamic_settings\<close> never raises and returns the empty dictionary, so it
  registers no hook; the imports are attempted, fail and are reported by the degradation
  notice (an error record) whenever \<open>DYNACONF_AFTER_GET_HOOKS\<close> enables a hook, and
  nothing is logged when it enables none. \<open>post\<close> then returns what it returns
  without the dynamic settings.
\<close>

theorem configure_dynamic_settings_degrades:
  assumes unavailable: "\<not> hooking_importable x"
  shows "fst (configure_dynamic_settings x settings) = Inr Map.empty \<and>
         snd (configure_dynamic_settings x settings) =
           (if truthy (settings_get settings ''DYNACONF_AFTER_GET_HOOKS'' PNone)
            then [degradation_notice] else []) \<and>
         fst (post x settings True run_validate) = fst (post x settings False run_validate)"
proof -
  have dyn: "configure_dynamic_settings x settings =
      (Inr Map.empty,
       if truthy (settings_get settings ''DYNACONF_AFTER_GET_HOOKS'' PNone)
       then [degradation_notice] else [])"
    using unavailable by (simp add: configure_dynamic_settings_def Let_def)
  have "fst (post x settings True run_validate) = fst (post x settings False run_validate)"
    by (simp add: post_def dyn split: sum.splits)
  with dyn show ?thesis by simp
qed

theorem configure_dynamic_settings_degrades_witness:
  "\<not> hooking_importable ext_old \<and>
   truthy (settings_get settings_hooks_enabled ''DYNACONF_AFTER_GET_HOOKS'' PNone) \<and>
   fst (configure_dynamic_settings ext_old settings_hooks_enabled) = Inr Map.empty \<and>
   snd (configure_dynamic_settings ext_old settings_hooks_enabled) = [degradation_notice]"
proof -
  have h: "\<not> hooking_importable ext_old"
    by (simp add: ext_old_def ext0_def)
  have e: "truthy (settings_get settings_hooks_enabled ''DYNACONF_AFTER_GET_HOOKS'' PNone)"
    by (simp add: settings_hooks_enabled_def settings_get_def)
  from configure_dynamic_settings_degrades [OF h, of settings_hooks_enabled] e h
  show ?thesis by simp
qed




text \<open>
  C4, as the code has it. While the apps are not ready, or for a key outside
  \<open>CONTENT_ORIGIN\<close>, \<open>ANSIBLE_API_HOSTNAME\<close> and \<open>TOKEN_SERVER\<close>, the hook returns the
  static value \<open>v\<close> as it is, also under a request. Once the apps are ready, a read of
  one of the three keys (in any case of the letters) under a request whose headers hold
  \<open>X-Forwarded-Proto: https\<close> and \<open>Host: example.org\<close> gives \<open>https://example.org\<close>,
  with \<open>/token/\<close> appended for \<open>TOKEN_SERVER\<close>; without a request the static value
  \<open>v\<close> is returned as it is; and the result depends neither on what the cache and the
  database hold nor on the settings object.
\<close>

theorem alter_hostname_settings_from_request:
  "(\<not> apps_ready w \<longrightarrow> alter_hostname_settings w temp_settings v key = v) \<and>
   (py_upper key \<notin> set ALLOWED_KEYS \<longrightarrow> alter_hostname_settings w temp_settings v key = v) \<and>
   (apps_ready w \<and> py_upper key \<in> set ALLOWED_KEYS \<and> current_request w = Some headers \<and>
    headers ''X-Forwarded-Proto'' = Some ''https'' \<and> headers ''Host'' = Some ''example.org'' \<longrightarrow>
      alter_hostname_settings w temp_settings v key =
        PStr (if py_upper key = ''TOKEN_SERVER'' then ''https://example.org/token/''
              else ''https://example.org'')) \<and>
   (current_request w = None \<longrightarrow> alter_hostname_settings w temp_settings v key = v) \<and>
   alter_hostname_settings (w\<lparr>cache_read := cache, db_read := db\<rparr>) temp_settings' v key =
     alter_hostname_settings w temp_settings v key"
  by (auto simp: alter_hostname_settings_def header_get_def Let_def split: option.splits)

theorem alter_hostname_settings_from_request_witness:
  "apps_ready runtime_request \<and> current_request runtime_request = Some example_headers \<and>
   example_headers ''X-Forwarded-Proto'' = Some ''https'' \<and>
   example_headers ''Host'' = Some ''example.org'' \<and>
   alter_hostname_settings runtime_request settings_static
     (PStr ''https://static.example.com'') ''CONTENT_ORIGIN'' = PStr ''https://example.org'' \<and>
   alter_hostname_settings runtime_request settings_static
     (PStr ''https://static.example.com/token/'') ''TOKEN_SERVER'' =
     PStr ''https://example.org/token/'' \<and>
   current_request runtime_miss = None \<and>
   alter_hostname_settings runtime_miss settings_static
     (PStr ''https://static.example.com'') ''CONTENT_ORIGIN'' =
     PStr ''https://static.example.com'' \<and>
   \<not> apps_ready runtime_booting_request \<and>
   current_request runtime_booting_request = Some example_headers \<and>
   alter_hostname_settings runtime_booting_request settings_static
     (PStr ''https://static.example.com'') ''CONTENT_ORIGIN'' =
     PStr ''https://static.example.com'' \<and>
   py_upper ''GALAXY_REQUIRE_CONTENT_APPROVAL'' \<notin> set ALLOWED_KEYS \<and>
   alter_hostname_settings runtime_request settings_static (PBool True)
     ''GALAXY_REQUIRE_CONTENT_APPROVAL'' = PBool True"
proof -
  have req: "apps_ready runtime_request" "current_request runtime_request = Some example_headers"
    "example_headers ''X-Forwarded-Proto'' = Some ''https''"
    "example_headers ''Host'' = Some ''example.org''"
    by (simp_all add: runtime_request_def runtime_miss_def runtime_db_hit_def
        runtime_cache_hit_def runtime_booting_def example_headers_def)
  have k1: "py_upper ''CONTENT_ORIGIN'' = ''CONTENT_ORIGIN''"
    and k2: "py_upper ''TOKEN_SERVER'' = ''TOKEN_SERVER''"
    by (simp_all add: py_upper_def upper_char_def)
  have r1: "alter_hostname_settings runtime_request settings_static
      (PStr ''https://static.example.com'') ''CONTENT_ORIGIN'' = PStr ''https://example.org''"
    using alter_hostname_settings_from_request
      [where w = runtime_request and key = "''CONTENT_ORIGIN''" and headers = example_headers
         and temp_settings = settings_static] req
    by (simp add: k1 ALLOWED_KEYS_def)
  have r2: "alter_hostname_settings runtime_request settings_static
      (PStr ''https://static.example.com/token/'') ''TOKEN_SERVER'' =
      PStr ''https://example.org/token/''"
    using alter_hostname_settings_from_request
      [where w = runtime_request and key = "''TOKEN_SERVER''" and headers = example_headers
         and temp_settings = settings_static] req
    by (simp add: k2 ALLOWED_KEYS_def)
  have none: "current_request runtime_miss = None"
    by (simp add: runtime_miss_def runtime_db_hit_def runtime_cache_hit_def
        runtime_booting_def)
  have r3: "alter_hostname_settings runtime_miss settings_static
      (PStr ''https://static.example.com'') ''CONTENT_ORIGIN'' =
      PStr ''https://static.example.com''"
    using alter_hostname_settings_from_request
      [where w = runtime_miss and key = "''CONTENT_ORIGIN''"
         and temp_settings = settings_static] none
    by simp
  have booting: "\<not> apps_ready runtime_booting_request"
    "current_request runtime_booting_request = Some example_headers"
    by (simp_all add: runtime_booting_request_def runtime_request_def runtime_miss_def
        runtime_db_hit_def runtime_cache_hit_def runtime_booting_def)
  have r4: "alter_hostname_settings runtime_booting_request settings_static
      (PStr ''https://static.example.com'') ''CONTENT_ORIGIN'' =
      PStr ''https://static.example.com''"
    using alter_hostname_settings_from_request
      [where w = runtime_booting_request and key = "''CONTENT_ORIGIN''"
         and temp_settings = settings_static] booting(1)
    by simp
  have other: "py_upper ''GALAXY_REQUIRE_CONTENT_APPROVAL'' \<notin> set ALLOWED_KEYS"
    by (simp add: py_upper_def upper_char_def ALLOWED_KEYS_def)
  have r5: "alter_hostname_settings runtime_request settings_static (PBool True)
      ''GALAXY_REQUIRE_CONTENT_APPROVAL'' = PBool True"
    using alter_hostname_settings_from_request
      [where w = runtime_request and key = "''GALAXY_REQUIRE_CONTENT_APPROVAL''"
         and temp_settings = settings_static] other
    by simp
  from req r1 r2 none r3 booting r4 other r5 show ?thesis by blast
qed

text \<open>
  C4 as stated fails while the apps are not ready: the hook returns the static value even
  under a request with the two headers.
\<close>

theorem request_while_booting_counterexample:
  "current_request runtime_booting_request = Some example_headers \<and>
   example_headers ''X-Forwarded-Proto'' = Some ''https'' \<and>
   example_headers ''Host'' = Some ''example.org'' \<and>
   alter_hostname_settings runtime_booting_request settings_static
     (PStr ''https://static.example.com'') ''CONTENT_ORIGIN'' =
     PStr ''https://static.example.com''"
  by (simp add: runtime_booting_request_def runtime_request_def runtime_miss_def
      runtime_db_hit_def runtime_cache_hit_def runtime_booting_def example_headers_def
      alter_hostname_settings_def)

text \<open>
  C9, as the code has it. \<open>fetch_dynamic\<close> is the two calls to the cache and to the
  database. When they return (\<open>data\<close>) and the merge of \<open>data\<close> into the settings object
  either succeeds or raises \<open>DynaconfFormatError\<close> or \<open>DynaconfParseError\<close>, the read
  returns a value and raises nothing; after such an error it logs an error record and
  reads the key from the settings object as the failed merge left it (\<open>temp'\<close>), so it
  returns the value the object had before whenever the merge left the object untouched.
  An exception of the calls to the cache or the database is not caught here, and neither
  is an exception of another class raised by the merge: the read raises it.
\<close>

theorem read_settings_from_cache_or_db_errors:
  "(fetch_dynamic w = Inr (data, ident) \<and>
    temp_update x temp_settings data ident = (temp', raised) \<and>
    (raised = None \<or> raised = Some DynaconfFormatError \<or> raised = Some DynaconfParseError) \<longrightarrow>
      (\<exists>r. fst (read_settings_from_cache_or_db x w temp_settings v key) = Inr r)) \<and>
   (apps_ready w \<and> py_upper key \<in> set (DYNAMIC_SETTINGS_SCHEMA x) \<and>
    fetch_dynamic w = Inr (data, ident) \<and> data \<noteq> [] \<and>
    temp_update x temp_settings data ident = (temp', Some err) \<and>
    (err = DynaconfFormatError \<or> err = DynaconfParseError) \<longrightarrow>
      read_settings_from_cache_or_db x w temp_settings v key =
        (Inr (settings_get temp' key v), temp',
         [(''ERROR'', ''Error loading dynamic settings: %s''), loaded_debug key data]) \<and>
      (temp' = temp_settings \<longrightarrow>
         fst (read_settings_from_cache_or_db x w temp_settings v key) =
           Inr (settings_get temp_settings key v))) \<and>
   (apps_ready w \<and> py_upper key \<in> set (DYNAMIC_SETTINGS_SCHEMA x) \<and>
    fetch_dynamic w = Inl err \<longrightarrow>
      fst (read_settings_from_cache_or_db x w temp_settings v key) = Inl err) \<and>
   (apps_ready w \<and> py_upper key \<in> set (DYNAMIC_SETTINGS_SCHEMA x) \<and>
    fetch_dynamic w = Inr (data, ident) \<and> data \<noteq> [] \<and>
    temp_update x temp_settings data ident = (temp', Some err) \<and>
    err \<noteq> DynaconfFormatError \<and> err \<noteq> DynaconfParseError \<longrightarrow>
      fst (read_settings_from_cache_or_db x w temp_settings v key) = Inl err)"
  by (auto simp: read_settings_from_cache_or_db_def)

theorem read_settings_from_cache_or_db_errors_witness:
  "fetch_dynamic runtime_cache_hit = Inr (cached_data, ''cache'') \<and>
   temp_update ext_parse_error settings_static cached_data ''cache'' =
     (settings_static, Some DynaconfParseError) \<and>
   read_settings_from_cache_or_db ext_parse_error runtime_cache_hit settings_static (PBool True)
     ''GALAXY_REQUIRE_CONTENT_APPROVAL'' =
     (Inr (PBool True), settings_static,
      [(''ERROR'', ''Error loading dynamic settings: %s''),
       (''DEBUG'', ''Dynamic setting for key: %s loaded from %s'')])"
proof -
  let ?key = "''GALAXY_REQUIRE_CONTENT_APPROVAL''"
  have allowed: "py_upper ?key \<in> set (DYNAMIC_SETTINGS_SCHEMA ext_parse_error)"
    by (simp add: ext_parse_error_def ext0_def py_upper_def upper_char_def)
  have ready: "apps_ready runtime_cache_hit"
    by (simp add: runtime_cache_hit_def runtime_booting_def)
  have fetched: "fetch_dynamic runtime_cache_hit = Inr (cached_data, ''cache'')"
    by (simp add: fetch_dynamic_def bind_result_def runtime_cache_hit_def runtime_booting_def
        cached_data_def)
  have ne: "cached_data \<noteq> []"
    by (simp add: cached_data_def)
  have upd: "temp_update ext_parse_error settings_static cached_data ''cache'' =
      (settings_static, Some DynaconfParseError)"
    by (simp add: ext_parse_error_def)
  have dbg: "loaded_debug ?key cached_data =
      (''DEBUG'', ''Dynamic setting for key: %s loaded from %s'')"
    by (simp add: loaded_debug_def cached_data_def)
  have "read_settings_from_cache_or_db ext_parse_error runtime_cache_hit settings_static
      (PBool True) ?key =
      (Inr (settings_get settings_static ?key (PBool True)), settings_static,
       [(''ERROR'', ''Error loading dynamic settings: %s''), loaded_debug ?key cached_data])"
    using read_settings_from_cache_or_db_errors
      [of runtime_cache_hit cached_data "''cache''" ext_parse_error settings_static
        settings_static "Some DynaconfParseError" "PBool True" ?key DynaconfParseError]
      allowed ready fetched ne upd
    by simp
  then have "read_settings_from_cache_or_db ext_parse_error runtime_cache_hit settings_static
      (PBool True) ?key =
      (Inr (PBool True), settings_static,
       [(''ERROR'', ''Error loading dynamic settings: %s''),
        (''DEBUG'', ''Dynamic setting for key: %s loaded from %s'')])"
    by (simp add: dbg settings_get_def settings_static_def)
  with fetched upd show ?thesis by blast
qed

text \<open>
  C9 as stated fails in two ways: an exception of the call to the cache reaches the
  caller of the read, and so does a \<open>ValueError\<close> raised while the data is merged.
\<close>

theorem read_propagates_exceptions_counterexample:
  "cache_read runtime_cache_down = Inl (External ''ConnectionError'') \<and>
   fst (read_settings_from_cache_or_db ext0 runtime_cache_down settings_static (PBool True)
     ''GALAXY_REQUIRE_CONTENT_APPROVAL'') = Inl (External ''ConnectionError'') \<and>
   temp_update ext_value_error settings_static cached_data ''cache'' =
     (settings_static, Some (ValueError ''invalid literal for int()'')) \<and>
   fst (read_settings_from_cache_or_db ext_value_error runtime_cache_hit settings_static
     (PBool True) ''GALAXY_REQUIRE_CONTENT_APPROVAL'') =
     Inl (ValueError ''invalid literal for int()'')"
  by (simp add: read_settings_from_cache_or_db_def fetch_dynamic_def bind_result_def
      runtime_cache_down_def runtime_cache_hit_def runtime_booting_def cached_data_def
      ext_value_error_def ext0_def py_upper_def upper_char_def)

section \<open>post\<close>

lemmas hook_defs =
  configure_ldap_def configure_logging_def configure_keycloak_def configure_socialauth_def
  configure_cors_def configure_pulp_ansible_def configure_renderers_def
  configure_password_validators_def configure_api_base_path_def configure_legacy_roles_def
  configure_dab_required_settings_def configure_authentication_backends_def
  configure_authentication_classes_def configure_dynamic_settings_def validate_def
  configure_dynaconf_cli_def

lemmas eval_defs =
  post_def post_hooks_def hook_defs bind_result_def update_with_def settings_get_def
  settings_attr_def data_get_def ext0_def ext_dev_def simple_set_def exact_box_get_def
  posix_join_def merged_backends_def extend_unique_opt_def extend_unique_def
  final_backends_def append_prefix_backend_def dedup_dynaconf_merge_def py_in_def
  py_count_def consolidate_classes_def session_first_def set_authentication_classes_def
  keys_of_def validator_validate_approval_rule validator_validate_preset_rule
  validate_items_def set_min_length_def py_endswith_def match_here_def py_strip_def
  result_key_def galaxy_session_def token_auth_def basic_auth_def model_backend_def
  prefix_backend_def security_middleware_def map_add_def

lemma post_hooks_is_connected:
  assumes "post_hooks x settings = Inr data"
  shows "data ''IS_CONNECTED_TO_RESOURCE_SERVER'' =
           Some (PBool (settings_get settings ''RESOURCE_SERVER__URL'' PNone \<noteq> PNone))"
  using assms unfolding post_hooks_def bind_result_Inr_iff by auto

lemma configure_dynamic_settings_keys:
  assumes "fst (configure_dynamic_settings x settings) = Inr p"
    and "k \<noteq> ''_registered_hooks''"
  shows "p k = None"
  using assms
  by (auto simp: configure_dynamic_settings_def Let_def bind_result_Inr_iff split: if_splits)

lemma configure_dynaconf_cli_keys:
  assumes "configure_dynaconf_cli x settings data = Inr data'"
    and "k \<noteq> ''CLI_DYNACONF''"
  shows "data' k = data k"
  using assms
  by (auto simp: configure_dynaconf_cli_def bind_result_Inr_iff split: option.splits)

lemma post_Inr_cases:
  assumes "fst (post x settings run_dynamic run_validate) = Inr data"
  obtains d0 p d1 where "post_hooks x settings = Inr d0"
    and "fst (if run_dynamic then configure_dynamic_settings x settings
              else (Inr Map.empty, [])) = Inr p"
    and "configure_dynaconf_cli x settings (d0 ++ p) = Inr d1"
    and "data = (d0 ++ p) ++ d1"
proof (cases "post_hooks x settings")
  case (Inl err)
  with assms show ?thesis by (simp add: post_def)
next
  case (Inr d0)
  obtain dyn logged where dyn:
    "(if run_dynamic then configure_dynamic_settings x settings else (Inr Map.empty, [])) =
      (dyn, logged)"
    by (cases "if run_dynamic then configure_dynamic_settings x settings
               else (Inr Map.empty, [])") auto
  from assms Inr dyn have
    "bind_result (update_with d0 dyn)
       (\<lambda>data. bind_result (if run_validate then validate x settings else Inr ())
                 (\<lambda>u. update_with data (configure_dynaconf_cli x settings data))) = Inr data"
    by (simp add: post_def)
  then obtain p d1 where "dyn = Inr p" "configure_dynaconf_cli x settings (d0 ++ p) = Inr d1"
    "data = (d0 ++ p) ++ d1"
    by (auto simp: bind_result_Inr_iff update_with_Inr_iff)
  with Inr dyn that show ?thesis by simp
qed

text \<open>
  C10. Whenever \<open>post\<close> returns a dictionary, the dictionary holds
  \<open>IS_CONNECTED_TO_RESOURCE_SERVER\<close>, and its value is \<open>True\<close> if and only if the
  settings passed to \<open>post\<close> hold a value other than \<open>None\<close> for
  \<open>RESOURCE_SERVER__URL\<close>.
\<close>

theorem post_is_connected_to_resource_server:
  assumes "fst (post x settings run_dynamic run_validate) = Inr data"
  shows "data ''IS_CONNECTED_TO_RESOURCE_SERVER'' =
           Some (PBool (\<exists>url. settings ''RESOURCE_SERVER__URL'' = Some url \<and> url \<noteq> PNone))"
proof -
  let ?k = "''IS_CONNECTED_TO_RESOURCE_SERVER''"
  from assms obtain d0 p d1 where d0: "post_hooks x settings = Inr d0"
    and p: "fst (if run_dynamic then configure_dynamic_settings x settings
                 else (Inr Map.empty, [])) = Inr p"
    and d1: "configure_dynaconf_cli x settings (d0 ++ p) = Inr d1"
    and data: "data = (d0 ++ p) ++ d1"
    by (rule post_Inr_cases)
  have pk: "p ?k = None"
  proof (cases run_dynamic)
    case True
    with p show ?thesis by (auto intro: configure_dynamic_settings_keys)
  next
    case False
    with p show ?thesis by auto
  qed
  have "d1 ?k = (d0 ++ p) ?k"
    using d1 by (rule configure_dynaconf_cli_keys) simp
  then have "data ?k = d0 ?k"
    using pk by (simp add: data map_add_def split: option.splits)
  also have "\<dots> = Some (PBool (settings_get settings ''RESOURCE_SERVER__URL'' PNone \<noteq> PNone))"
    using d0 by (rule post_hooks_is_connected)
  also have "(settings_get settings ''RESOURCE_SERVER__URL'' PNone \<noteq> PNone) =
      (\<exists>url. settings ''RESOURCE_SERVER__URL'' = Some url \<and> url \<noteq> PNone)"
    by (simp add: settings_get_def split: option.splits)
  finally show ?thesis .
qed

lemma post_settings0_returns: "\<exists>data. fst (post ext0 settings0 True True) = Inr data"
  by (simp add: eval_defs settings0_def)

theorem post_is_connected_to_resource_server_witness:
  "(\<exists>data. fst (post ext0 settings0 True True) = Inr data) \<and>
   settings0 ''RESOURCE_SERVER__URL'' = Some (PStr ''https://gateway.example.org'') \<and>
   result_key (fst (post ext0 settings0 True True)) ''IS_CONNECTED_TO_RESOURCE_SERVER'' =
     Some (PBool True)"
proof -
  obtain data where data: "fst (post ext0 settings0 True True) = Inr data"
    using post_settings0_returns by blast
  have url: "settings0 ''RESOURCE_SERVER__URL'' = Some (PStr ''https://gateway.example.org'')"
    by (simp add: settings0_def)
  from post_is_connected_to_resource_server [OF data] url
  have "data ''IS_CONNECTED_TO_RESOURCE_SERVER'' = Some (PBool True)"
    by simp
  with data url show ?thesis by (auto simp: result_key_def)
qed

lemma final_backends_keeps:
  assumes "PStr b \<in> set backends"
  shows "PStr b \<in> set (final_backends backends)"
proof -
  have "PStr b \<in> set (append_prefix_backend backends)"
    using assms by (simp add: append_prefix_backend_def)
  then show ?thesis
    by (cases "b = ''dynaconf_merge''")
       (auto simp: final_backends_def dedup_dynaconf_merge_def py_eq_PStr_right)
qed

lemma extend_unique_opt_keeps:
  assumes "extend_unique_opt backends lst = Inr backends'"
    and "PStr b \<in> set backends"
  shows "PStr b \<in> set backends'"
  using assms
  by (auto simp: extend_unique_opt_def extend_unique_def bind_result_Inr_iff split: if_splits)

lemma extend_unique_opt_adds:
  assumes "extend_unique_opt backends (PList incoming) = Inr backends'"
    and "PStr b \<in> set incoming"
  shows "PStr b \<in> set backends'"
  using assms
  by (auto simp: extend_unique_opt_def extend_unique_def bind_result_Inr_iff py_in_PStr)

text \<open>
  C1, as the code has it. \<open>post\<close> runs its hooks in order and merges every partial
  update into \<open>data\<close>, never into the settings object, and it hands every hook the
  settings object it was called with: for a key that an earlier hook has set in its
  partial update, a hook that reads the key through \<open>settings\<close> gets the value of the
  settings, not the merged one. A later hook reads the merged-so-far value of such a key
  only from \<open>data\<close>, which \<open>configure_dab_required_settings\<close>,
  \<open>configure_authentication_backends\<close> and \<open>configure_authentication_classes\<close>
  receive (\<open>hook_list\<close> says which hook receives what). So the backends that the earlier
  hooks left in \<open>data\<close> are all in the list that \<open>configure_authentication_backends\<close>
  stores.
\<close>

theorem post_hooks_read_initial_settings:
  "post_hooks x settings =
     bind_result (run_hooks settings (hook_list x) [''dynaconf_merge'' \<mapsto> PBool False])
       (\<lambda>data.
          Inr (data(''IS_CONNECTED_TO_RESOURCE_SERVER'' \<mapsto>
                 PBool (settings_get settings ''RESOURCE_SERVER__URL'' PNone \<noteq> PNone)))) \<and>
   (data_get data ''AUTHENTICATION_BACKENDS'' PNone = PList incoming \<and>
    PStr b \<in> set incoming \<and>
    configure_authentication_backends x settings data = Inr data' \<longrightarrow>
      (\<exists>backends. data' ''AUTHENTICATION_BACKENDS'' = Some (PList backends) \<and>
                  PStr b \<in> set backends))"
proof -
  have pipeline: "post_hooks x settings =
      bind_result (run_hooks settings (hook_list x) [''dynaconf_merge'' \<mapsto> PBool False])
        (\<lambda>data.
           Inr (data(''IS_CONNECTED_TO_RESOURCE_SERVER'' \<mapsto>
                  PBool (settings_get settings ''RESOURCE_SERVER__URL'' PNone \<noteq> PNone))))"
    by (simp add: post_hooks_def hook_list_def update_with_def bind_result_def
        split: sum.splits)
  have merged: "\<exists>backends. data' ''AUTHENTICATION_BACKENDS'' = Some (PList backends) \<and>
      PStr b \<in> set backends"
    if incoming: "data_get data ''AUTHENTICATION_BACKENDS'' PNone = PList incoming"
      and b: "PStr b \<in> set incoming"
      and res: "configure_authentication_backends x settings data = Inr data'"
  proof -
    from res obtain backends where m: "merged_backends x settings data = Inr backends"
      and d': "data' = (if length (final_backends backends) > 0
                        then data(''AUTHENTICATION_BACKENDS'' \<mapsto> PList (final_backends backends))
                        else data)"
      by (auto simp: configure_authentication_backends_def bind_result_Inr_iff)
    from m obtain existing backends1 preset_list where
      e1: "extend_unique_opt existing (PList incoming) = Inr backends1"
      and e2: "extend_unique_opt backends1 preset_list = Inr backends"
      by (auto simp: merged_backends_def bind_result_Inr_iff incoming split: pyval.splits)
    have "PStr b \<in> set backends1"
      using e1 b by (rule extend_unique_opt_adds)
    with e2 have "PStr b \<in> set backends"
      by (rule extend_unique_opt_keeps)
    then have "PStr b \<in> set (final_backends backends)"
      by (rule final_backends_keeps)
    moreover have "data' ''AUTHENTICATION_BACKENDS'' = Some (PList (final_backends backends))"
      using d' final_backends_nonempty [of backends] by simp
    ultimately show ?thesis by blast
  qed
  from pipeline merged show ?thesis by blast
qed

theorem post_hooks_read_initial_settings_witness:
  "data_get
     [''AUTHENTICATION_BACKENDS'' \<mapsto>
        PList [PStr ''social_core.backends.keycloak.KeycloakOAuth2'', PStr ''dynaconf_merge'']]
     ''AUTHENTICATION_BACKENDS'' PNone =
     PList [PStr ''social_core.backends.keycloak.KeycloakOAuth2'', PStr ''dynaconf_merge''] \<and>
   PStr ''social_core.backends.keycloak.KeycloakOAuth2'' \<in>
     set [PStr ''social_core.backends.keycloak.KeycloakOAuth2'', PStr ''dynaconf_merge''] \<and>
   (\<exists>data'. configure_authentication_backends ext0 settings0
      [''AUTHENTICATION_BACKENDS'' \<mapsto>
         PList [PStr ''social_core.backends.keycloak.KeycloakOAuth2'', PStr ''dynaconf_merge'']] =
      Inr data' \<and>
      (\<exists>backends. data' ''AUTHENTICATION_BACKENDS'' = Some (PList backends) \<and>
         PStr ''social_core.backends.keycloak.KeycloakOAuth2'' \<in> set backends))"
proof -
  let ?incoming = "[PStr ''social_core.backends.keycloak.KeycloakOAuth2'', PStr ''dynaconf_merge'']"
  let ?data = "[''AUTHENTICATION_BACKENDS'' \<mapsto> PList ?incoming]"
  have h1: "data_get ?data ''AUTHENTICATION_BACKENDS'' PNone = PList ?incoming"
    by (simp add: data_get_def)
  have h2: "PStr ''social_core.backends.keycloak.KeycloakOAuth2'' \<in> set ?incoming"
    by simp
  obtain data' where h3: "configure_authentication_backends ext0 settings0 ?data = Inr data'"
    by (simp add: configure_authentication_backends_def merged_backends_def bind_result_def
        settings_get_def settings_attr_def data_get_def settings0_def extend_unique_opt_def
        ext0_def exact_box_get_def)
  from post_hooks_read_initial_settings
    [of ext0 settings0 ?data ?incoming "''social_core.backends.keycloak.KeycloakOAuth2''" data']
    h1 h2 h3
  have "\<exists>backends. data' ''AUTHENTICATION_BACKENDS'' = Some (PList backends) \<and>
      PStr ''social_core.backends.keycloak.KeycloakOAuth2'' \<in> set backends"
    by blast
  with h1 h2 h3 show ?thesis by blast
qed

text \<open>
  C1 as stated fails for \<open>MIDDLEWARE\<close> on a development machine with the access log
  and CORS switched on. \<open>configure_logging\<close> sets the key, and \<open>configure_cors\<close>, which
  runs after it, prepends its middleware to the value of the initial settings: that list
  is what \<open>post\<close> returns. Had the later hook read the value merged so far, the
  result would hold the middleware of the access log, as the pipeline of the spec's words
  does.
\<close>

theorem later_hook_reads_initial_settings_counterexample:
  "result_key (Inr (configure_logging ext_dev settings_dev)) ''MIDDLEWARE'' =
     Some (PList [PStr ''automated_logging.middleware.AutomatedLoggingMiddleware'',
                  PStr ''dynaconf_merge'']) \<and>
   settings_dev ''MIDDLEWARE'' = Some (PList [PStr security_middleware]) \<and>
   result_key (fst (post ext_dev settings_dev True True)) ''MIDDLEWARE'' =
     Some (PList [PStr ''galaxy_ng.app.common.openapi.AllowCorsMiddleware'',
                  PStr security_middleware]) \<and>
   result_key
     (run_hooks_merged settings_dev (hook_list ext_dev) [''dynaconf_merge'' \<mapsto> PBool False])
     ''MIDDLEWARE'' =
     Some (PList [PStr ''galaxy_ng.app.common.openapi.AllowCorsMiddleware'',
                  PStr ''automated_logging.middleware.AutomatedLoggingMiddleware'',
                  PStr ''dynaconf_merge''])"
proof -
  have logging: "result_key (Inr (configure_logging ext_dev settings_dev)) ''MIDDLEWARE'' =
      Some (PList [PStr ''automated_logging.middleware.AutomatedLoggingMiddleware'',
                   PStr ''dynaconf_merge''])"
    by (simp add: result_key_def configure_logging_def settings_dev_def settings0_def
        settings_get_def)
  have initial: "settings_dev ''MIDDLEWARE'' = Some (PList [PStr security_middleware])"
    by (simp add: settings_dev_def settings0_def)
  have returned: "result_key (fst (post ext_dev settings_dev True True)) ''MIDDLEWARE'' =
      Some (PList [PStr ''galaxy_ng.app.common.openapi.AllowCorsMiddleware'',
                   PStr security_middleware])"
    by (simp add: eval_defs settings_dev_def settings0_def)
  have merged: "result_key
      (run_hooks_merged settings_dev (hook_list ext_dev) [''dynaconf_merge'' \<mapsto> PBool False])
      ''MIDDLEWARE'' =
      Some (PList [PStr ''galaxy_ng.app.common.openapi.AllowCorsMiddleware'',
                   PStr ''automated_logging.middleware.AutomatedLoggingMiddleware'',
                   PStr ''dynaconf_merge''])"
    by (simp add: hook_list_def eval_defs settings_dev_def settings0_def)
  from logging initial returned merged show ?thesis by blast
qed

end
